theory Spec2Isabelle
  imports Main "HOL-Library.List_Lexorder"
begin

section \<open>Python values of a parsed Telegram export\<close>

text \<open>
  A Python \<^verbatim>\<open>str\<close> is a sequence of code points, and \<^verbatim>\<open>len\<close>, slicing and
  comparison work on code points.  A string is therefore a list of natural numbers; the
  literals of the source are written \<open>u ''...''\<close>, and the three non-ASCII symbols of
  the source (U+21A9, U+21AA and U+1F4CE) by their code points.  With
  \<^verbatim>\<open>List_Lexorder\<close> the order \<open><\<close> on such lists is the lexicographic one, a proper
  prefix being smaller, which is Python's order on \<^verbatim>\<open>str\<close>.
\<close>

type_synonym ustr = "nat list"

definition u :: "string \<Rightarrow> ustr" where
  "u s = map of_char s"

text \<open>
  What \<^verbatim>\<open>json.load\<close> returns: \<^verbatim>\<open>None\<close>, \<^verbatim>\<open>bool\<close>, \<^verbatim>\<open>int\<close>, \<^verbatim>\<open>str\<close>,
  \<^verbatim>\<open>list\<close> and \<^verbatim>\<open>dict\<close> with string keys.  A dict is the list of its items in
  insertion order; a lookup takes the first item with the key, so on the lists without
  repeated keys (the dicts of Python) it is \<^verbatim>\<open>dict.get\<close>.  JSON numbers with a
  fraction or an exponent (Python floats) are not part of this model.
\<close>

datatype json =
    JNull
  | JBool bool
  | JInt int
  | JStr ustr
  | JList "json list"
  | JDict "(ustr \<times> json) list"

type_synonym pydict = "(ustr \<times> json) list"

text \<open>The exceptions the code can raise on such values and does not catch.\<close>

datatype error = TypeError | AttributeError

definition bnd :: "error + 'a \<Rightarrow> ('a \<Rightarrow> error + 'b) \<Rightarrow> error + 'b" where
  "bnd r f = (case r of Inl e \<Rightarrow> Inl e | Inr v \<Rightarrow> f v)"

text \<open>\<^verbatim>\<open>d.get(k, default)\<close> and \<^verbatim>\<open>k in d\<close>.\<close>

definition dict_get :: "pydict \<Rightarrow> ustr \<Rightarrow> json \<Rightarrow> json" where
  "dict_get d k dflt = (case map_of d k of Some v \<Rightarrow> v | None \<Rightarrow> dflt)"

definition has_key :: "pydict \<Rightarrow> ustr \<Rightarrow> bool" where
  "has_key d k = (map_of d k \<noteq> None)"

text \<open>Truth value testing (\<^verbatim>\<open>if x:\<close>, \<^verbatim>\<open>x and y\<close>, \<^verbatim>\<open>x or y\<close>).\<close>

fun truthy :: "json \<Rightarrow> bool" where
  "truthy JNull = False"
| "truthy (JBool b) = b"
| "truthy (JInt i) = (i \<noteq> 0)"
| "truthy (JStr s) = (s \<noteq> [])"
| "truthy (JList xs) = (xs \<noteq> [])"
| "truthy (JDict d) = (d \<noteq> [])"

text \<open>Decimal digits of a number, as \<^verbatim>\<open>str\<close> prints an \<^verbatim>\<open>int\<close>.\<close>

fun digits :: "nat \<Rightarrow> ustr" where
  "digits n = (if n < 10 then [48 + n] else digits (n div 10) @ [48 + n mod 10])"

declare digits.simps [simp del]

definition str_of_int :: "int \<Rightarrow> ustr" where
  "str_of_int i = (if i < 0 then 45 # digits (nat (- i)) else digits (nat i))"

text \<open>
  The library functions the code calls and the repository does not define are the
  fields of a runtime, a parameter of every function below:
  \<^item> \<open>fromisoformat\<close> is \<^verbatim>\<open>datetime.fromisoformat\<close>, \<open>None\<close> standing for its
    \<^verbatim>\<open>ValueError\<close>;
  \<^item> \<open>repr_of\<close> is \<^verbatim>\<open>str\<close> on a list or a dict;
  \<^item> \<open>title\<close> is \<^verbatim>\<open>str.title\<close>.
\<close>

record datetime =
  year :: nat
  month :: nat
  day :: nat
  hour :: nat
  minute :: nat
  second :: nat

record runtime =
  fromisoformat :: "ustr \<Rightarrow> datetime option"
  repr_of :: "json \<Rightarrow> ustr"
  title :: "ustr \<Rightarrow> ustr"

text \<open>A value inside an f-string: \<^verbatim>\<open>format(v, '')\<close>, which is \<^verbatim>\<open>str(v)\<close>.\<close>

fun py_str :: "runtime \<Rightarrow> json \<Rightarrow> ustr" where
  "py_str E JNull = u ''None''"
| "py_str E (JBool b) = (if b then u ''True'' else u ''False'')"
| "py_str E (JInt i) = str_of_int i"
| "py_str E (JStr s) = s"
| "py_str E (JList xs) = repr_of E (JList xs)"
| "py_str E (JDict d) = repr_of E (JDict d)"

text \<open>\<^verbatim>\<open>s.replace(old, new)\<close> for a pattern \<open>old\<close> of one character, the only use
  the code makes of it: every occurrence is replaced.\<close>

definition replace_char :: "nat \<Rightarrow> ustr \<Rightarrow> ustr \<Rightarrow> ustr" where
  "replace_char old new s = concat (map (\<lambda>c. if c = old then new else [c]) s)"

text \<open>\<^verbatim>\<open>sep.join(lines)\<close> on a list of strings.\<close>

fun join :: "ustr \<Rightarrow> ustr list \<Rightarrow> ustr" where
  "join sep [] = []"
| "join sep [x] = x"
| "join sep (x # y # ys) = x @ sep @ join sep (y # ys)"

text \<open>\<^verbatim>\<open>sep.join(result)\<close> on a list of values: a \<^verbatim>\<open>TypeError\<close> unless every
  one is a string.\<close>

fun strs_of :: "json list \<Rightarrow> ustr list option" where
  "strs_of [] = Some []"
| "strs_of (JStr s # vs) = map_option (Cons s) (strs_of vs)"
| "strs_of (v # vs) = None"

definition join_values :: "ustr \<Rightarrow> json list \<Rightarrow> error + ustr" where
  "join_values sep vs = (case strs_of vs of Some ss \<Rightarrow> Inr (join sep ss) | None \<Rightarrow> Inl TypeError)"

section \<open>Timestamp formatter\<close>

text \<open>
  \<^verbatim>\<open>dt.strftime('%Y-%m-%d %H:%M:%S')\<close>.  Python hands the format to the
  \<^verbatim>\<open>strftime\<close> of the C library, and the model is the one of glibc: \<^verbatim>\<open>%Y\<close> prints
  the year in decimal with no leading zero (the year 999 as \<^verbatim>\<open>999\<close>), and
  \<^verbatim>\<open>%m\<close>, \<^verbatim>\<open>%d\<close>, \<^verbatim>\<open>%H\<close>, \<^verbatim>\<open>%M\<close> and \<^verbatim>\<open>%S\<close> print two digits.
\<close>

definition pad2 :: "nat \<Rightarrow> ustr" where
  "pad2 n = [48 + n div 10 mod 10, 48 + n mod 10]"

definition strftime :: "datetime \<Rightarrow> ustr" where
  "strftime dt = digits (year dt) @ [45] @ pad2 (month dt) @ [45] @ pad2 (day dt) @ [32]
     @ pad2 (hour dt) @ [58] @ pad2 (minute dt) @ [58] @ pad2 (second dt)"

text \<open>
  \<^verbatim>\<open>format_timestamp\<close>.  The argument is whatever \<^verbatim>\<open>message.get('date', '')\<close>
  gave, and \<open>parse\<close> is \<^verbatim>\<open>datetime.fromisoformat\<close>.  On a value that is not a string \<^verbatim>\<open>date_str.replace\<close> raises
  \<^verbatim>\<open>AttributeError\<close>, which the function catches: it returns the value as it is.
\<close>

definition format_timestamp :: "(ustr \<Rightarrow> datetime option) \<Rightarrow> json \<Rightarrow> json" where
  "format_timestamp parse date_str =
     (case date_str of
        JStr s \<Rightarrow>
          (case parse (replace_char 90 (u ''+00:00'') s) of
             Some dt \<Rightarrow> JStr (strftime dt)
           | None \<Rightarrow> date_str)
      | _ \<Rightarrow> date_str)"

section \<open>Rich-text extractor\<close>

definition starts_with :: "ustr \<Rightarrow> nat \<Rightarrow> bool" where
  "starts_with s c = (case s of [] \<Rightarrow> False | x # _ \<Rightarrow> x = c)"

text \<open>The body of the loop of \<^verbatim>\<open>extract_text_content\<close> on an item that is a dict:
  the value it appends to \<^verbatim>\<open>result\<close>.\<close>

definition format_span :: "runtime \<Rightarrow> pydict \<Rightarrow> error + json" where
  "format_span E item =
     (let text = dict_get item (u ''text'') (JStr []);
          item_type = dict_get item (u ''type'') (JStr [])
      in
        if item_type = JStr (u ''bold'') then Inr (JStr (u ''**'' @ py_str E text @ u ''**''))
        else if item_type = JStr (u ''italic'') then Inr (JStr (u ''*'' @ py_str E text @ u ''*''))
        else if item_type = JStr (u ''code'') then Inr (JStr ([96] @ py_str E text @ [96]))
        else if item_type = JStr (u ''pre'') then
          Inr (JStr ([10, 96, 96, 96, 10] @ py_str E text @ [10, 96, 96, 96, 10]))
        else if item_type = JStr (u ''text_link'') then
          (let href = dict_get item (u ''href'') (JStr [])
           in Inr (JStr (u ''['' @ py_str E text @ u ''](''  @ py_str E href @ u '')'')))
        else if item_type = JStr (u ''link'') then Inr text
        else if item_type = JStr (u ''mention'') \<or> item_type = JStr (u ''mention_name'') then
          (case text of
             JStr t \<Rightarrow> Inr (JStr (if \<not> starts_with t 64 then 64 # t else t))
           | _ \<Rightarrow> Inl AttributeError)
        else if item_type = JStr (u ''hashtag'') then Inr text
        else if item_type = JStr (u ''email'') then Inr text
        else if item_type = JStr (u ''phone'') then Inr text
        else if item_type = JStr (u ''strikethrough'') then
          Inr (JStr (u ''~~'' @ py_str E text @ u ''~~''))
        else if item_type = JStr (u ''underline'') then
          Inr (JStr (u ''<u>'' @ py_str E text @ u ''</u>''))
        else if item_type = JStr (u ''spoiler'') then
          Inr (JStr (u ''||'' @ py_str E text @ u ''||''))
        else if item_type = JStr (u ''custom_emoji'') then Inr text
        else Inr text)"

text \<open>The loop over the items, \<open>result\<close> being the list built so far.  An item that is
  neither a string nor a dict matches no branch of the loop and appends nothing.\<close>

fun extract_items :: "runtime \<Rightarrow> json list \<Rightarrow> json list \<Rightarrow> error + json list" where
  "extract_items E [] result = Inr result"
| "extract_items E (item # items) result =
     (case item of
        JStr s \<Rightarrow> extract_items E items (result @ [item])
      | JDict d \<Rightarrow>
          (case format_span E d of
             Inl e \<Rightarrow> Inl e
           | Inr piece \<Rightarrow> extract_items E items (result @ [piece]))
      | _ \<Rightarrow> extract_items E items result)"

definition extract_text_content :: "runtime \<Rightarrow> json \<Rightarrow> error + ustr" where
  "extract_text_content E text_field =
     (case text_field of
        JStr s \<Rightarrow> Inr s
      | JList items \<Rightarrow> bnd (extract_items E items []) (join_values [])
      | _ \<Rightarrow> Inr (if truthy text_field then py_str E text_field else []))"

section \<open>Media classifier\<close>

text \<open>\<^verbatim>\<open>x.get\<close> on a value: only a dict has the method.\<close>

definition as_dict :: "json \<Rightarrow> error + pydict" where
  "as_dict v = (case v of JDict d \<Rightarrow> Inr d | _ \<Rightarrow> Inl AttributeError)"

text \<open>The numeric value of an \<^verbatim>\<open>int\<close> or a \<^verbatim>\<open>bool\<close> (\<^verbatim>\<open>True == 1\<close>).\<close>

fun num_val :: "json \<Rightarrow> int option" where
  "num_val (JInt i) = Some i"
| "num_val (JBool b) = Some (if b then 1 else 0)"
| "num_val v = None"

text \<open>\<^verbatim>\<open>a + b\<close>: concatenation of two strings or of two lists, the sum of two
  numbers, a \<^verbatim>\<open>TypeError\<close> on every other pair.\<close>

definition py_add :: "json \<Rightarrow> json \<Rightarrow> error + json" where
  "py_add a b =
     (case (a, b) of
        (JStr x, JStr y) \<Rightarrow> Inr (JStr (x @ y))
      | (JList x, JList y) \<Rightarrow> Inr (JList (x @ y))
      | _ \<Rightarrow>
          (case (num_val a, num_val b) of
             (Some x, Some y) \<Rightarrow> Inr (JInt (x + y))
           | _ \<Rightarrow> Inl TypeError))"

text \<open>\<^verbatim>\<open>s.strip()\<close>: the characters for which \<^verbatim>\<open>str.isspace\<close> holds are
  removed at both ends.\<close>

definition is_space :: "nat \<Rightarrow> bool" where
  "is_space c = (c \<in> set ([9, 10, 11, 12, 13, 28, 29, 30, 31, 32, 133, 160, 5760]
      @ [8192 ..< 8203] @ [8232, 8233, 8239, 8287, 12288]))"

definition strip :: "ustr \<Rightarrow> ustr" where
  "strip s = rev (dropWhile is_space (rev (dropWhile is_space s)))"

definition get_message_type_info :: "runtime \<Rightarrow> pydict \<Rightarrow> error + ustr" where
  "get_message_type_info E message =
     (let media_type = dict_get message (u ''media_type'') JNull in
        if media_type = JStr (u ''sticker'') then
          (let emoji = dict_get message (u ''sticker_emoji'') (JStr [])
           in Inr (u ''[Sticker '' @ py_str E emoji @ u '']''))
        else if media_type = JStr (u ''voice_message'') then
          (let duration = dict_get message (u ''duration_seconds'') (JInt 0)
           in Inr (u ''[Voice message - '' @ py_str E duration @ u ''s]''))
        else if media_type = JStr (u ''video_message'') then
          (let duration = dict_get message (u ''duration_seconds'') (JInt 0)
           in Inr (u ''[Video message - '' @ py_str E duration @ u ''s]''))
        else if media_type = JStr (u ''animation'') then Inr (u ''[GIF]'')
        else if media_type = JStr (u ''video_file'') then Inr (u ''[Video]'')
        else if media_type = JStr (u ''audio_file'') then
          (let title = dict_get message (u ''title'') (JStr (u ''Audio''));
               performer = dict_get message (u ''performer'') (JStr [])
           in if truthy performer
              then Inr (u ''[Audio: '' @ py_str E performer @ u '' - '' @ py_str E title @ u '']'')
              else Inr (u ''[Audio: '' @ py_str E title @ u '']''))
        else if has_key message (u ''photo'') then Inr (u ''[Photo]'')
        else if has_key message (u ''file'') then
          (let file_name = dict_get message (u ''file_name'')
                 (dict_get message (u ''file'') (JStr (u ''File'')))
           in Inr (u ''[File: '' @ py_str E file_name @ u '']''))
        else if has_key message (u ''location_information'') then
          bnd (as_dict (dict_get message (u ''location_information'') (JDict []))) (\<lambda>loc.
            let lat = dict_get loc (u ''latitude'') (JStr []);
                lon = dict_get loc (u ''longitude'') (JStr [])
            in Inr (u ''[Location: '' @ py_str E lat @ u '', '' @ py_str E lon @ u '']''))
        else if has_key message (u ''contact_information'') then
          bnd (as_dict (dict_get message (u ''contact_information'') (JDict []))) (\<lambda>contact.
          bnd (py_add (dict_get contact (u ''first_name'') (JStr [])) (JStr [32])) (\<lambda>first.
          bnd (py_add first (dict_get contact (u ''last_name'') (JStr []))) (\<lambda>name.
            let phone = dict_get contact (u ''phone_number'') (JStr [])
            in (case name of
                  JStr n \<Rightarrow>
                    Inr (u ''[Contact: '' @ strip n @ u '' - '' @ py_str E phone @ u '']'')
                | _ \<Rightarrow> Inl AttributeError))))
        else if has_key message (u ''poll'') then
          bnd (as_dict (dict_get message (u ''poll'') (JDict []))) (\<lambda>poll.
            let question = dict_get poll (u ''question'') (JStr (u ''Poll''))
            in Inr (u ''[Poll: '' @ py_str E question @ u '']''))
        else Inr [])"

section \<open>Service messages\<close>

text \<open>
  The keys of a Python dict or set: \<^verbatim>\<open>None\<close>, numbers and strings.  A \<^verbatim>\<open>bool\<close>
  is the number it equals (\<^verbatim>\<open>True == 1\<close> and both hash alike); a list or a dict is
  unhashable, and using one as a key raises \<^verbatim>\<open>TypeError\<close>.
\<close>

datatype key = KNone | KNum int | KStr ustr

fun to_key :: "json \<Rightarrow> key option" where
  "to_key JNull = Some KNone"
| "to_key (JBool b) = Some (KNum (if b then 1 else 0))"
| "to_key (JInt i) = Some (KNum i)"
| "to_key (JStr s) = Some (KStr s)"
| "to_key (JList xs) = None"
| "to_key (JDict d) = None"

text \<open>The table \<^verbatim>\<open>action_messages\<close>, for the actor as the f-strings print it.\<close>

definition action_messages :: "runtime \<Rightarrow> pydict \<Rightarrow> ustr \<Rightarrow> (ustr \<times> ustr) list" where
  "action_messages E message actor =
     [(u ''create_group'', u ''*'' @ actor @ u '' created the group*''),
      (u ''invite_members'', u ''*'' @ actor @ u '' invited members to the group*''),
      (u ''remove_members'', u ''*'' @ actor @ u '' removed members from the group*''),
      (u ''join_group_by_link'', u ''*'' @ actor @ u '' joined the group via invite link*''),
      (u ''leave_group'', u ''*'' @ actor @ u '' left the group*''),
      (u ''pin_message'', u ''*'' @ actor @ u '' pinned a message*''),
      (u ''edit_group_title'', u ''*'' @ actor @ u '' changed the group title to '' @ [34]
         @ py_str E (dict_get message (u ''title'') (JStr [])) @ [34] @ u ''*''),
      (u ''edit_group_photo'', u ''*'' @ actor @ u '' changed the group photo*''),
      (u ''delete_group_photo'', u ''*'' @ actor @ u '' deleted the group photo*''),
      (u ''migrate_from_group'', u ''*Group upgraded to supergroup*''),
      (u ''migrate_to_supergroup'', u ''*Group upgraded to supergroup*''),
      (u ''phone_call'', u ''*Phone call with '' @ actor @ u ''*''),
      (u ''score_in_game'', u ''*'' @ actor @ u '' scored in a game*''),
      (u ''bot_allowed'', u ''*Bot allowed by '' @ actor @ u ''*'')]"

text \<open>\<^verbatim>\<open>format_service_message\<close>.  The lookup \<^verbatim>\<open>action_messages.get(action, ...)\<close>
  hashes the action, so an action that is a list or a dict raises.\<close>

definition format_service_message :: "runtime \<Rightarrow> pydict \<Rightarrow> error + ustr" where
  "format_service_message E message =
     (let action = dict_get message (u ''action'') (JStr []);
          actor = dict_get message (u ''actor'') (dict_get message (u ''from'') (JStr (u ''Someone'')));
          dflt = u ''*['' @ py_str E action @ u '']*''
      in case to_key action of
           None \<Rightarrow> Inl TypeError
         | Some (KStr a) \<Rightarrow>
             (case map_of (action_messages E message (py_str E actor)) a of
                Some sentence \<Rightarrow> Inr sentence
              | None \<Rightarrow> Inr dflt)
         | Some _ \<Rightarrow> Inr dflt)"

section \<open>Reply index\<close>

type_synonym index = "key \<rightharpoonup> pydict"

text \<open>The dict comprehension of \<^verbatim>\<open>build_message_index\<close>, \<open>idx\<close> being the dict built
  so far: a later message with an equal identifier replaces the earlier one.\<close>

fun index_messages :: "pydict list \<Rightarrow> index \<Rightarrow> error + index" where
  "index_messages [] idx = Inr idx"
| "index_messages (msg # msgs) idx =
     (if has_key msg (u ''id'') then
        (case to_key (dict_get msg (u ''id'') JNull) of
           None \<Rightarrow> Inl TypeError
         | Some k \<Rightarrow> index_messages msgs (idx(k \<mapsto> msg)))
      else index_messages msgs idx)"

definition build_message_index :: "pydict list \<Rightarrow> error + index" where
  "build_message_index messages = index_messages messages Map.empty"

section \<open>Message renderer\<close>

text \<open>Lines 205 to 208 of the source: the quoted text of the original message.\<close>

definition reply_excerpt :: "ustr \<Rightarrow> ustr" where
  "reply_excerpt original_text =
     replace_char 10 [32]
       (if length original_text > 100 then take 100 original_text @ u ''...''
        else original_text)"

text \<open>The lines the reply part of \<^verbatim>\<open>format_message\<close> appends.  The test
  \<^verbatim>\<open>reply_to_id in message_index\<close> hashes the identifier.\<close>

definition reply_lines :: "runtime \<Rightarrow> pydict \<Rightarrow> index \<Rightarrow> error + ustr list" where
  "reply_lines E message message_index =
     (let reply_to_id = dict_get message (u ''reply_to_message_id'') JNull in
        if truthy reply_to_id then
          (case to_key reply_to_id of
             None \<Rightarrow> Inl TypeError
           | Some k \<Rightarrow>
               (case message_index k of
                  None \<Rightarrow> Inr []
                | Some original \<Rightarrow>
                    (let original_sender = dict_get original (u ''from'')
                           (dict_get original (u ''actor'') (JStr (u ''Unknown'')))
                     in bnd (extract_text_content E (dict_get original (u ''text'') (JStr [])))
                          (\<lambda>original_text.
                             Inr [u ''> **'' @ [8617] @ u '' Reply to '' @ py_str E original_sender
                                    @ u '':** '' @ reply_excerpt original_text,
                                  []]))))
        else Inr [])"

definition forward_lines :: "runtime \<Rightarrow> pydict \<Rightarrow> ustr list" where
  "forward_lines E message =
     (let forwarded_from = dict_get message (u ''forwarded_from'') JNull in
        if truthy forwarded_from
        then [u ''> **'' @ [8618] @ u '' Forwarded from '' @ py_str E forwarded_from @ u ''**'', []]
        else [])"

definition content_lines :: "ustr \<Rightarrow> ustr \<Rightarrow> ustr list" where
  "content_lines text media_info =
     (if media_info \<noteq> [] then [[128206] @ u '' '' @ media_info] @ (if text \<noteq> [] then [[]] else [])
      else [])
     @ (if text \<noteq> [] then [text] else [])
     @ (if text = [] \<and> media_info = [] then [u ''*[Empty message]*''] else [])"

text \<open>The list \<^verbatim>\<open>lines\<close> of \<^verbatim>\<open>format_message\<close> when it returns.\<close>

definition format_message_lines :: "runtime \<Rightarrow> pydict \<Rightarrow> index \<Rightarrow> error + ustr list" where
  "format_message_lines E message message_index =
     (if dict_get message (u ''type'') JNull = JStr (u ''service'') then
        (let timestamp = format_timestamp (fromisoformat E) (dict_get message (u ''date'') (JStr []))
         in bnd (format_service_message E message) (\<lambda>service_text.
              Inr [u ''> '' @ service_text, u ''> *'' @ py_str E timestamp @ u ''*'', []]))
      else
        (let msg_id = dict_get message (u ''id'') (JStr []);
             sender = dict_get message (u ''from'')
               (dict_get message (u ''actor'') (JStr (u ''Unknown'')));
             timestamp = format_timestamp (fromisoformat E) (dict_get message (u ''date'') (JStr []))
         in bnd (reply_lines E message message_index) (\<lambda>reply.
            bnd (extract_text_content E (dict_get message (u ''text'') (JStr []))) (\<lambda>text.
            bnd (get_message_type_info E message) (\<lambda>media_info.
              Inr ([u ''### '' @ py_str E sender,
                    u ''*'' @ py_str E timestamp @ u ''* | Message #'' @ py_str E msg_id,
                    []]
                   @ reply @ forward_lines E message @ content_lines text media_info
                   @ [[], u ''---'', []]))))))"

definition format_message :: "runtime \<Rightarrow> pydict \<Rightarrow> index \<Rightarrow> error + ustr" where
  "format_message E message message_index =
     bnd (format_message_lines E message message_index) (\<lambda>lines. Inr (join [10] lines))"

section \<open>Header\<close>

text \<open>\<^verbatim>\<open>a == b\<close> on parsed values: numbers by value, lists item by item, dicts as
  sets of items.\<close>

fun py_eq :: "json \<Rightarrow> json \<Rightarrow> bool" where
  "py_eq (JStr a) (JStr b) = (a = b)"
| "py_eq (JList a) (JList b) = list_all2 py_eq a b"
| "py_eq (JDict a) (JDict b) =
     (length a = length b \<and>
      list_all (\<lambda>kv. case map_of b (fst kv) of Some w \<Rightarrow> py_eq (snd kv) w | None \<Rightarrow> False) a)"
| "py_eq JNull JNull = True"
| "py_eq a b = (case (num_val a, num_val b) of (Some x, Some y) \<Rightarrow> x = y | _ \<Rightarrow> False)"

text \<open>\<^verbatim>\<open>a < b\<close>: strings by code points, numbers by value, lists by their first
  unequal items; every other pair raises \<^verbatim>\<open>TypeError\<close>.\<close>

fun py_lt :: "json \<Rightarrow> json \<Rightarrow> error + bool"
  and lt_items :: "json list \<Rightarrow> json list \<Rightarrow> error + bool" where
  "py_lt (JStr a) (JStr b) = Inr (a < b)"
| "py_lt (JList a) (JList b) = lt_items a b"
| "py_lt a b =
     (case (num_val a, num_val b) of (Some x, Some y) \<Rightarrow> Inr (x < y) | _ \<Rightarrow> Inl TypeError)"
| "lt_items [] ys = Inr (ys \<noteq> [])"
| "lt_items (x # xs) [] = Inr False"
| "lt_items (x # xs) (y # ys) = (if py_eq x y then lt_items xs ys else py_lt x y)"

text \<open>\<^verbatim>\<open>min\<close> and \<^verbatim>\<open>max\<close> of a list that is not empty: one pass that keeps the
  first smallest (largest) item, \<open>best\<close> being the one kept so far.\<close>

fun min_from :: "json \<Rightarrow> json list \<Rightarrow> error + json" where
  "min_from best [] = Inr best"
| "min_from best (x # xs) = bnd (py_lt x best) (\<lambda>b. min_from (if b then x else best) xs)"

fun max_from :: "json \<Rightarrow> json list \<Rightarrow> error + json" where
  "max_from best [] = Inr best"
| "max_from best (x # xs) = bnd (py_lt best x) (\<lambda>b. max_from (if b then x else best) xs)"

text \<open>Lines 262 to 269: the rows of the first and of the last message.\<close>

definition date_rows :: "runtime \<Rightarrow> pydict list \<Rightarrow> error + ustr list" where
  "date_rows E messages =
     (let dates = filter truthy (map (\<lambda>m. dict_get m (u ''date'') JNull) messages) in
        case dates of
          [] \<Rightarrow> Inr []
        | d # ds \<Rightarrow>
            bnd (min_from d ds) (\<lambda>mn.
            bnd (max_from d ds) (\<lambda>mx.
              Inr [u ''| **First Message** | '' @ py_str E (format_timestamp (fromisoformat E) mn) @ u '' |'',
                   u ''| **Last Message** | '' @ py_str E (format_timestamp (fromisoformat E) mx) @ u '' |''])))"

text \<open>Lines 272 to 276.  The set \<^verbatim>\<open>participants\<close> is the list of its elements in the
  order they came in; \<^verbatim>\<open>add\<close> hashes the value and keeps the element already there
  when one is equal.\<close>

fun collect_participants :: "pydict list \<Rightarrow> json list \<Rightarrow> error + json list" where
  "collect_participants [] participants = Inr participants"
| "collect_participants (msg # msgs) participants =
     (let sender = (if truthy (dict_get msg (u ''from'') JNull) then dict_get msg (u ''from'') JNull
                    else dict_get msg (u ''actor'') JNull)
      in if truthy sender then
           (case to_key sender of
              None \<Rightarrow> Inl TypeError
            | Some k \<Rightarrow>
                collect_participants msgs
                  (if Some k \<in> set (map to_key participants) then participants
                   else participants @ [sender]))
         else collect_participants msgs participants)"

text \<open>\<^verbatim>\<open>sorted\<close> on the elements of such a set, which are strings and numbers that
  differ pairwise: strings sort by code points and numbers by value, and a list that
  mixes both raises \<^verbatim>\<open>TypeError\<close> at the first comparison of a string with a
  number.\<close>

fun nums_of :: "json list \<Rightarrow> int list option" where
  "nums_of [] = Some []"
| "nums_of (v # vs) =
     (case num_val v of None \<Rightarrow> None | Some n \<Rightarrow> map_option (Cons n) (nums_of vs))"

definition py_sorted :: "json list \<Rightarrow> error + json list" where
  "py_sorted vs =
     (case strs_of vs of
        Some ss \<Rightarrow> Inr (map JStr (sort ss))
      | None \<Rightarrow>
          (case nums_of vs of
             Some ns \<Rightarrow> Inr (sort_key (\<lambda>v. case num_val v of Some n \<Rightarrow> n | None \<Rightarrow> 0) vs)
           | None \<Rightarrow> if length vs \<le> 1 then Inr vs else Inl TypeError))"

text \<open>
  The value of \<^verbatim>\<open>chat_data.get('messages', [])\<close> as the header uses it: \<^verbatim>\<open>len\<close>
  raises \<^verbatim>\<open>TypeError\<close> on \<^verbatim>\<open>None\<close> and on a number, and the first
  \<^verbatim>\<open>m.get('date')\<close> on an element that is not a dict raises \<^verbatim>\<open>AttributeError\<close>
  (the elements of a string are strings, those of a dict its keys).
\<close>

fun dicts_of :: "json list \<Rightarrow> pydict list option" where
  "dicts_of [] = Some []"
| "dicts_of (JDict d # vs) = map_option (Cons d) (dicts_of vs)"
| "dicts_of (v # vs) = None"

definition message_list :: "json \<Rightarrow> error + pydict list" where
  "message_list messages =
     (case messages of
        JList vs \<Rightarrow> (case dicts_of vs of Some ms \<Rightarrow> Inr ms | None \<Rightarrow> Inl AttributeError)
      | JStr s \<Rightarrow> if s = [] then Inr [] else Inl AttributeError
      | JDict d \<Rightarrow> if d = [] then Inr [] else Inl AttributeError
      | _ \<Rightarrow> Inl TypeError)"

definition generate_chat_header_lines :: "runtime \<Rightarrow> pydict \<Rightarrow> error + ustr list" where
  "generate_chat_header_lines E chat_data =
     (let chat_name = dict_get chat_data (u ''name'') (JStr (u ''Telegram Chat''));
          chat_type = dict_get chat_data (u ''type'') (JStr (u ''unknown''));
          chat_id = dict_get chat_data (u ''id'') (JStr [])
      in case chat_type of
           JStr t \<Rightarrow>
             bnd (message_list (dict_get chat_data (u ''messages'') (JList []))) (\<lambda>messages.
             bnd (date_rows E messages) (\<lambda>rows.
             bnd (collect_participants messages []) (\<lambda>participants.
             bnd (py_sorted participants) (\<lambda>sorted_participants.
               Inr ([u ''# '' @ py_str E chat_name,
                     [],
                     u ''## Chat Details'',
                     [],
                     u ''| Property | Value |'',
                     u ''|----------|-------|'',
                     u ''| **Name** | '' @ py_str E chat_name @ u '' |'',
                     u ''| **Type** | '' @ title E (replace_char 95 [32] t) @ u '' |'',
                     u ''| **ID** | '' @ py_str E chat_id @ u '' |'',
                     u ''| **Total Messages** | '' @ str_of_int (int (length messages)) @ u '' |'']
                    @ rows
                    @ (if participants \<noteq> []
                       then [u ''| **Participants** | '' @ str_of_int (int (length participants))
                               @ u '' |'']
                       else [])
                    @ [[]]
                    @ (if participants \<noteq> []
                       then [u ''### Participants'', []]
                            @ map (\<lambda>p. u ''- '' @ py_str E p) sorted_participants @ [[]]
                       else [])
                    @ [u ''---'', [], u ''## Messages'', []])))))
         | _ \<Rightarrow> Inl AttributeError)"

definition generate_chat_header :: "runtime \<Rightarrow> pydict \<Rightarrow> error + ustr" where
  "generate_chat_header E chat_data =
     bnd (generate_chat_header_lines E chat_data) (\<lambda>lines. Inr (join [10] lines))"

section \<open>Document assembler\<close>

text \<open>The loop of \<^verbatim>\<open>convert_to_markdown\<close>: the blocks it appends after the header.\<close>

fun format_messages :: "runtime \<Rightarrow> pydict list \<Rightarrow> index \<Rightarrow> error + ustr list" where
  "format_messages E [] message_index = Inr []"
| "format_messages E (message # messages) message_index =
     bnd (format_message E message message_index) (\<lambda>formatted.
     bnd (format_messages E messages message_index) (\<lambda>rest. Inr (formatted # rest)))"

definition convert_to_markdown :: "runtime \<Rightarrow> pydict \<Rightarrow> error + ustr" where
  "convert_to_markdown E chat_data =
     bnd (generate_chat_header E chat_data) (\<lambda>header.
     bnd (message_list (dict_get chat_data (u ''messages'') (JList []))) (\<lambda>messages.
     bnd (build_message_index messages) (\<lambda>message_index.
     bnd (format_messages E messages message_index) (\<lambda>blocks.
       Inr (join [10] (header # blocks))))))"

section \<open>Notions of the specification\<close>

text \<open>
  The annotation kinds whose rendering wraps the text of the span in markup, and the
  items of a text list on which the loop of the extractor appends a string: an item that
  is a dict has a text that is a string, or a kind that wraps (the f-string then prints
  whatever the text is).
\<close>

definition wrapping_kinds :: "ustr list" where
  "wrapping_kinds = [u ''bold'', u ''italic'', u ''code'', u ''pre'', u ''text_link'',
     u ''strikethrough'', u ''underline'', u ''spoiler'']"

definition span_ok :: "json \<Rightarrow> bool" where
  "span_ok item =
     (case item of
        JDict d \<Rightarrow>
          (case dict_get d (u ''text'') (JStr []) of
             JStr t \<Rightarrow> True
           | _ \<Rightarrow> dict_get d (u ''type'') (JStr []) \<in> set (map JStr wrapping_kinds))
      | _ \<Rightarrow> True)"

text \<open>The text one item of the list contributes: a string itself, a dict what
  \<open>format_span\<close> makes of it, anything else nothing.\<close>

definition rendered :: "runtime \<Rightarrow> json \<Rightarrow> ustr" where
  "rendered E item =
     (case item of
        JStr s \<Rightarrow> s
      | JDict d \<Rightarrow> (case format_span E d of Inr (JStr s) \<Rightarrow> s | _ \<Rightarrow> [])
      | _ \<Rightarrow> [])"

text \<open>
  The rules of the media classifier as the specification lists them, each with the tag
  it produces, and the choice of the first rule that applies.
\<close>

definition media_rules :: "runtime \<Rightarrow> pydict \<Rightarrow> (bool \<times> (error + ustr)) list" where
  "media_rules E message =
     [(dict_get message (u ''media_type'') JNull = JStr (u ''sticker''),
       Inr (u ''[Sticker '' @ py_str E (dict_get message (u ''sticker_emoji'') (JStr [])) @ u '']'')),
      (dict_get message (u ''media_type'') JNull = JStr (u ''voice_message''),
       Inr (u ''[Voice message - '' @ py_str E (dict_get message (u ''duration_seconds'') (JInt 0))
            @ u ''s]'')),
      (dict_get message (u ''media_type'') JNull = JStr (u ''video_message''),
       Inr (u ''[Video message - '' @ py_str E (dict_get message (u ''duration_seconds'') (JInt 0))
            @ u ''s]'')),
      (dict_get message (u ''media_type'') JNull = JStr (u ''animation''), Inr (u ''[GIF]'')),
      (dict_get message (u ''media_type'') JNull = JStr (u ''video_file''), Inr (u ''[Video]'')),
      (dict_get message (u ''media_type'') JNull = JStr (u ''audio_file''),
       if truthy (dict_get message (u ''performer'') (JStr []))
       then Inr (u ''[Audio: '' @ py_str E (dict_get message (u ''performer'') (JStr [])) @ u '' - ''
                 @ py_str E (dict_get message (u ''title'') (JStr (u ''Audio''))) @ u '']'')
       else Inr (u ''[Audio: '' @ py_str E (dict_get message (u ''title'') (JStr (u ''Audio'')))
                 @ u '']'')),
      (has_key message (u ''photo''), Inr (u ''[Photo]'')),
      (has_key message (u ''file''),
       Inr (u ''[File: '' @ py_str E (dict_get message (u ''file_name'')
              (dict_get message (u ''file'') (JStr (u ''File'')))) @ u '']'')),
      (has_key message (u ''location_information''),
       bnd (as_dict (dict_get message (u ''location_information'') (JDict []))) (\<lambda>loc.
         Inr (u ''[Location: '' @ py_str E (dict_get loc (u ''latitude'') (JStr [])) @ u '', ''
              @ py_str E (dict_get loc (u ''longitude'') (JStr [])) @ u '']''))),
      (has_key message (u ''contact_information''),
       bnd (as_dict (dict_get message (u ''contact_information'') (JDict []))) (\<lambda>contact.
       bnd (py_add (dict_get contact (u ''first_name'') (JStr [])) (JStr [32])) (\<lambda>first.
       bnd (py_add first (dict_get contact (u ''last_name'') (JStr []))) (\<lambda>name.
         case name of
           JStr n \<Rightarrow> Inr (u ''[Contact: '' @ strip n @ u '' - ''
                         @ py_str E (dict_get contact (u ''phone_number'') (JStr [])) @ u '']'')
         | _ \<Rightarrow> Inl AttributeError)))),
      (has_key message (u ''poll''),
       bnd (as_dict (dict_get message (u ''poll'') (JDict []))) (\<lambda>poll.
         Inr (u ''[Poll: '' @ py_str E (dict_get poll (u ''question'') (JStr (u ''Poll'')))
              @ u '']'')))]"

fun first_match :: "(bool \<times> (error + ustr)) list \<Rightarrow> error + ustr" where
  "first_match [] = Inr []"
| "first_match ((applies, tag) # rules) = (if applies then tag else first_match rules)"











text \<open>\<^verbatim>\<open>d\<close> without the key \<^verbatim>\<open>k\<close>: the same message, carrying no such field.\<close>

definition dict_del :: "ustr \<Rightarrow> pydict \<Rightarrow> pydict" where
  "dict_del k d = filter (\<lambda>kv. fst kv \<noteq> k) d"

text \<open>
  The messages on which the renderer returns.  Nothing is asked of a field that is absent,
  nor of the fields the code only prints (sender, identifier, date, forward origin and the
  like).  What is asked: the reply reference is falsy or hashable; the action of a service
  message is hashable; the items of a text list are such that the loop appends strings;
  and the payload that decides the media tag, when it is a location, a contact or a poll,
  is a dict, the name parts of a contact being strings.
\<close>

definition is_str :: "json \<Rightarrow> bool" where
  "is_str v = (case v of JStr s \<Rightarrow> True | _ \<Rightarrow> False)"

definition is_dict :: "json \<Rightarrow> bool" where
  "is_dict v = (case v of JDict d \<Rightarrow> True | _ \<Rightarrow> False)"

definition text_ok :: "json \<Rightarrow> bool" where
  "text_ok v = (case v of JList items \<Rightarrow> list_all span_ok items | _ \<Rightarrow> True)"

definition media_kinds :: "ustr list" where
  "media_kinds = [u ''sticker'', u ''voice_message'', u ''video_message'', u ''animation'',
     u ''video_file'', u ''audio_file'']"

definition media_ok :: "pydict \<Rightarrow> bool" where
  "media_ok m =
     (dict_get m (u ''media_type'') JNull \<in> set (map JStr media_kinds)
      \<or> has_key m (u ''photo'') \<or> has_key m (u ''file'')
      \<or> (if has_key m (u ''location_information'')
          then is_dict (dict_get m (u ''location_information'') (JDict []))
          else if has_key m (u ''contact_information'')
          then (case dict_get m (u ''contact_information'') (JDict []) of
                  JDict c \<Rightarrow> is_str (dict_get c (u ''first_name'') (JStr []))
                             \<and> is_str (dict_get c (u ''last_name'') (JStr []))
                | _ \<Rightarrow> False)
          else if has_key m (u ''poll'')
          then is_dict (dict_get m (u ''poll'') (JDict []))
          else True))"

definition message_ok :: "pydict \<Rightarrow> bool" where
  "message_ok m =
     (if dict_get m (u ''type'') JNull = JStr (u ''service'')
      then to_key (dict_get m (u ''action'') (JStr [])) \<noteq> None
      else (\<not> truthy (dict_get m (u ''reply_to_message_id'') JNull)
            \<or> to_key (dict_get m (u ''reply_to_message_id'') JNull) \<noteq> None)
           \<and> text_ok (dict_get m (u ''text'') (JStr []))
           \<and> media_ok m)"

text \<open>
  The dates of an archive.  A message is dated when \<^verbatim>\<open>m.get('date')\<close> is truthy; the
  dates are strings when every dated message has a string there, and \<open>date_strings\<close> are
  then the dates of the dated messages, in the order of the archive.
\<close>

definition dates_ok :: "pydict list \<Rightarrow> bool" where
  "dates_ok messages =
     list_all (\<lambda>m. \<not> truthy (dict_get m (u ''date'') JNull) \<or> is_str (dict_get m (u ''date'') JNull))
       messages"

definition date_strings :: "pydict list \<Rightarrow> ustr list" where
  "date_strings messages =
     concat (map (\<lambda>m. case dict_get m (u ''date'') JNull of
                         JStr s \<Rightarrow> if s = [] then [] else [s]
                       | _ \<Rightarrow> []) messages)"

text \<open>
  The participants of an archive.  The sender-or-actor value of a message is
  \<^verbatim>\<open>msg.get('from') or msg.get('actor')\<close>; the senders are strings when every such value
  that is truthy is a string, and \<open>sender_strings\<close> are then the values that are not empty,
  in the order of the archive.
\<close>

definition sender_or_actor :: "pydict \<Rightarrow> json" where
  "sender_or_actor m =
     (if truthy (dict_get m (u ''from'') JNull) then dict_get m (u ''from'') JNull
      else dict_get m (u ''actor'') JNull)"

definition senders_ok :: "pydict list \<Rightarrow> bool" where
  "senders_ok messages =
     list_all (\<lambda>m. \<not> truthy (sender_or_actor m) \<or> is_str (sender_or_actor m)) messages"

definition sender_strings :: "pydict list \<Rightarrow> ustr list" where
  "sender_strings messages =
     concat (map (\<lambda>m. case sender_or_actor m of
                         JStr s \<Rightarrow> if s = [] then [] else [s]
                       | _ \<Rightarrow> []) messages)"

text \<open>
  A valid archive: the type of the chat is a string, the messages are a list of message
  records that satisfy \<open>message_ok\<close>, each with a text the extractor accepts and an
  identifier that is hashable when present, and the dates and the senders are strings.
\<close>

definition archive_ok :: "pydict \<Rightarrow> bool" where
  "archive_ok chat =
     (is_str (dict_get chat (u ''type'') (JStr (u ''unknown'')))
      \<and> (case dict_get chat (u ''messages'') (JList []) of
           JList vs \<Rightarrow>
             (case dicts_of vs of
                Some msgs \<Rightarrow>
                  list_all message_ok msgs
                  \<and> list_all (\<lambda>m. text_ok (dict_get m (u ''text'') (JStr []))) msgs
                  \<and> list_all (\<lambda>m. to_key (dict_get m (u ''id'') JNull) \<noteq> None) msgs
                  \<and> dates_ok msgs \<and> senders_ok msgs
              | None \<Rightarrow> False)
         | _ \<Rightarrow> False))"

section \<open>Basic facts\<close>

lemma bnd_Inr [simp]: "bnd (Inr v) f = f v"
  by (simp add: bnd_def)

lemma bnd_Inl [simp]: "bnd (Inl e) f = Inl e"
  by (simp add: bnd_def)

lemma bnd_eq_Inr: "bnd r f = Inr y \<longleftrightarrow> (\<exists>v. r = Inr v \<and> f v = Inr y)"
  by (cases r) simp_all

lemma replace_char_single:
  "replace_char old [new] s = map (\<lambda>c. if c = old then new else c) s"
  by (induction s) (simp_all add: replace_char_def)

lemma join_empty: "join [] ss = concat ss"
  by (induction "[]::nat list" ss rule: join.induct) simp_all

section \<open>The reply quote\<close>

text \<open>
  C3.  A content message whose reply reference resolves to \<open>original\<close> in the index,
  the extractor giving \<open>t\<close> on the original text: the fourth line of the block is the
  quote, and its excerpt is the first 100 characters of \<open>t\<close> followed by \<open>...\<close> when
  \<open>t\<close> is longer than 100, and \<open>t\<close> itself otherwise, every newline being one space in
  both cases.
\<close>

theorem reply_excerpt_truncation:
  assumes "format_message_lines E message idx = Inr ls"
    and "dict_get message (u ''type'') JNull \<noteq> JStr (u ''service'')"
    and "truthy (dict_get message (u ''reply_to_message_id'') JNull)"
    and "to_key (dict_get message (u ''reply_to_message_id'') JNull) = Some k"
    and "idx k = Some original"
    and "extract_text_content E (dict_get original (u ''text'') (JStr [])) = Inr t"
  shows "ls ! 3 = u ''> **'' @ [8617] @ u '' Reply to ''
            @ py_str E (dict_get original (u ''from'')
                 (dict_get original (u ''actor'') (JStr (u ''Unknown''))))
            @ u '':** ''
            @ (if length t > 100
               then map (\<lambda>c. if c = 10 then 32 else c) (take 100 t) @ u ''...''
               else map (\<lambda>c. if c = 10 then 32 else c) t)"
  using assms
  by (auto simp: format_message_lines_def reply_lines_def Let_def bnd_eq_Inr reply_excerpt_def
      replace_char_single u_def)

theorem reply_excerpt_truncation_witness:
  "\<forall>E. \<exists>ls.
     format_message_lines E
       [(u ''id'', JInt 2), (u ''reply_to_message_id'', JInt 1), (u ''text'', JStr (u ''ok''))]
       [KNum 1 \<mapsto> [(u ''id'', JInt 1), (u ''from'', JStr (u ''Alice'')),
                    (u ''text'', JStr (replicate 120 97 @ [10] @ replicate 29 98))]] = Inr ls
     \<and> ls ! 3 = u ''> **'' @ [8617] @ u '' Reply to Alice:** '' @ replicate 100 97 @ u ''...''"
proof (intro allI)
  fix E
  let ?o = "[(u ''id'', JInt 1), (u ''from'', JStr (u ''Alice'')),
             (u ''text'', JStr (replicate 120 97 @ [10] @ replicate 29 98))]"
  let ?m = "[(u ''id'', JInt 2), (u ''reply_to_message_id'', JInt 1), (u ''text'', JStr (u ''ok''))]"
  obtain ls where r: "format_message_lines E ?m [KNum 1 \<mapsto> ?o] = Inr ls"
    by (simp add: format_message_lines_def reply_lines_def Let_def dict_get_def u_def
        extract_text_content_def get_message_type_info_def has_key_def)
  have "ls ! 3 = u ''> **'' @ [8617] @ u '' Reply to Alice:** '' @ replicate 100 97 @ u ''...''"
    using reply_excerpt_truncation [OF r, of "KNum 1" ?o "replicate 120 97 @ [10] @ replicate 29 98"]
    by (simp add: dict_get_def u_def extract_text_content_def)
  with r show "\<exists>ls. format_message_lines E ?m [KNum 1 \<mapsto> ?o] = Inr ls
     \<and> ls ! 3 = u ''> **'' @ [8617] @ u '' Reply to Alice:** '' @ replicate 100 97 @ u ''...''"
    by blast
qed

section \<open>The rich-text extractor on lists\<close>

lemma format_span_text_str:
  assumes "dict_get d (u ''text'') (JStr []) = JStr t"
  shows "\<exists>s. format_span E d = Inr (JStr s)"
  using assms by (simp add: format_span_def Let_def)

lemma format_span_wrapping:
  assumes "dict_get d (u ''type'') (JStr []) \<in> set (map JStr wrapping_kinds)"
  shows "\<exists>s. format_span E d = Inr (JStr s) \<and> s \<noteq> []"
proof -
  from assms consider
      "dict_get d (u ''type'') (JStr []) = JStr (u ''bold'')"
    | "dict_get d (u ''type'') (JStr []) = JStr (u ''italic'')"
    | "dict_get d (u ''type'') (JStr []) = JStr (u ''code'')"
    | "dict_get d (u ''type'') (JStr []) = JStr (u ''pre'')"
    | "dict_get d (u ''type'') (JStr []) = JStr (u ''text_link'')"
    | "dict_get d (u ''type'') (JStr []) = JStr (u ''strikethrough'')"
    | "dict_get d (u ''type'') (JStr []) = JStr (u ''underline'')"
    | "dict_get d (u ''type'') (JStr []) = JStr (u ''spoiler'')"
    by (auto simp: wrapping_kinds_def)
  then show ?thesis
    by cases (simp_all add: format_span_def Let_def u_def)
qed

lemma format_span_ok:
  assumes "span_ok (JDict d)"
  shows "\<exists>s. format_span E d = Inr (JStr s)"
proof (cases "dict_get d (u ''text'') (JStr [])")
  case (JStr t)
  then show ?thesis by (rule format_span_text_str)
qed (use assms format_span_wrapping in \<open>auto simp: span_ok_def\<close>)


lemma strs_of_append: "strs_of (vs @ [JStr s]) = map_option (\<lambda>ss. ss @ [s]) (strs_of vs)"
  by (induction vs rule: strs_of.induct) (simp_all add: option.map_comp comp_def)

lemma extract_items_concat:
  assumes "list_all span_ok items" and "strs_of result = Some rs"
  shows "\<exists>vs. extract_items E items result = Inr vs
           \<and> (\<exists>ss. strs_of vs = Some ss \<and> concat ss = concat rs @ concat (map (rendered E) items))"
  using assms
proof (induction items arbitrary: result rs)
  case Nil
  then show ?case by simp
next
  case (Cons item items)
  from Cons.prems have rest: "list_all span_ok items" by simp
  show ?case
  proof (cases item)
    case (JStr s)
    have "strs_of (result @ [JStr s]) = Some (rs @ [s])"
      using Cons.prems(2) by (simp add: strs_of_append)
    from Cons.IH [OF rest this] JStr show ?thesis
      by (simp add: rendered_def)
  next
    case (JDict d)
    with Cons.prems obtain s where s: "format_span E d = Inr (JStr s)"
      using format_span_ok by auto
    have "strs_of (result @ [JStr s]) = Some (rs @ [s])"
      using Cons.prems(2) by (simp add: strs_of_append)
    from Cons.IH [OF rest this] JDict s show ?thesis
      by (simp add: rendered_def)
  next
    case JNull
    with Cons.IH [OF rest Cons.prems(2)] show ?thesis by (simp add: rendered_def)
  next
    case (JBool b)
    with Cons.IH [OF rest Cons.prems(2)] show ?thesis by (simp add: rendered_def)
  next
    case (JInt i)
    with Cons.IH [OF rest Cons.prems(2)] show ?thesis by (simp add: rendered_def)
  next
    case (JList xs)
    with Cons.IH [OF rest Cons.prems(2)] show ?thesis by (simp add: rendered_def)
  qed
qed

lemma format_span_empty:
  assumes "format_span E d = Inr (JStr [])"
  shows "dict_get d (u ''text'') (JStr []) = JStr []"
  using assms
  by (simp add: format_span_def Let_def u_def starts_with_def split: if_splits json.splits)


lemma rendered_empty:
  assumes "span_ok (JDict d)" and "rendered E (JDict d) = []"
  shows "dict_get d (u ''text'') (JStr []) = JStr []"
proof -
  from assms(1) obtain s where s: "format_span E d = Inr (JStr s)"
    using format_span_ok by blast
  with assms(2) have "s = []" by (simp add: rendered_def)
  with s show ?thesis by (simp add: format_span_empty)
qed

text \<open>
  C8, amended.  On a list whose dict items have a string text or a wrapping kind, the
  extractor returns the concatenation, in the order of the list and with nothing between
  them, of what each item renders to.  A string renders to itself, an item that is neither
  a string nor a dict to nothing, and a dict renders to the empty string only when its
  text is the empty string.
\<close>

theorem extract_concatenates_spans:
  assumes "list_all span_ok items"
  shows "extract_text_content E (JList items) = Inr (concat (map (rendered E) items))
       \<and> (\<forall>s. JStr s \<in> set items \<longrightarrow> rendered E (JStr s) = s)
       \<and> (\<forall>d. JDict d \<in> set items \<and> rendered E (JDict d) = [] \<longrightarrow>
              dict_get d (u ''text'') (JStr []) = JStr [])"
proof -
  obtain vs ss where vs: "extract_items E items [] = Inr vs" "strs_of vs = Some ss"
    "concat ss = concat (map (rendered E) items)"
    using extract_items_concat [OF assms, of "[]" "[]" E] by auto
  then have "extract_text_content E (JList items) = Inr (concat (map (rendered E) items))"
    by (simp add: extract_text_content_def join_values_def join_empty)
  moreover have "\<forall>d. JDict d \<in> set items \<and> rendered E (JDict d) = [] \<longrightarrow>
              dict_get d (u ''text'') (JStr []) = JStr []"
    using assms rendered_empty by (auto simp: list_all_iff)
  ultimately show ?thesis by (simp add: rendered_def)
qed

theorem extract_concatenates_spans_witness:
  "\<forall>E. list_all span_ok
          [JStr (u ''a''), JDict [(u ''type'', JStr (u ''bold'')), (u ''text'', JStr (u ''b''))],
           JInt 5, JDict [(u ''type'', JStr (u ''link'')), (u ''text'', JStr [])]]
     \<and> extract_text_content E
          (JList [JStr (u ''a''), JDict [(u ''type'', JStr (u ''bold'')), (u ''text'', JStr (u ''b''))],
           JInt 5, JDict [(u ''type'', JStr (u ''link'')), (u ''text'', JStr [])]])
         = Inr (u ''a**b**'')"
proof (intro allI)
  fix E
  let ?items = "[JStr (u ''a''), JDict [(u ''type'', JStr (u ''bold'')), (u ''text'', JStr (u ''b''))],
           JInt 5, JDict [(u ''type'', JStr (u ''link'')), (u ''text'', JStr [])]]"
  have ok: "list_all span_ok ?items"
    by (simp add: span_ok_def dict_get_def u_def)
  from extract_concatenates_spans [OF ok, of E]
  have "extract_text_content E (JList ?items) = Inr (concat (map (rendered E) ?items))"
    by blast
  then have "extract_text_content E (JList ?items) = Inr (u ''a**b**'')"
    by (simp add: rendered_def format_span_def dict_get_def u_def)
  with ok show "list_all span_ok ?items \<and> extract_text_content E (JList ?items) = Inr (u ''a**b**'')"
    by blast
qed

text \<open>
  C8 as stated fails: a \<^verbatim>\<open>link\<close> span whose text is the number 5 is appended as
  it is, and \<^verbatim>\<open>''.join\<close> raises \<^verbatim>\<open>TypeError\<close>; a list item that is a number is
  dropped.
\<close>

theorem extract_list_counterexample:
  "\<forall>E. extract_text_content E
          (JList [JDict [(u ''type'', JStr (u ''link'')), (u ''text'', JInt 5)]]) = Inl TypeError
       \<and> extract_text_content E (JList [JInt 5]) = Inr []"
  by (simp add: extract_text_content_def format_span_def dict_get_def u_def join_values_def)

section \<open>Sender names\<close>

lemma dict_get_absent: "map_of d k = None \<Longrightarrow> dict_get d k dflt = dflt"
  by (simp add: dict_get_def)

lemma py_str_actor:
  "py_str E (dict_get m (u ''actor'') (JStr (u ''Unknown'')))
   = (case map_of m (u ''actor'') of Some v \<Rightarrow> py_str E v | None \<Rightarrow> u ''Unknown'')"
  by (simp add: dict_get_def split: option.splits)

text \<open>
  C10.  In the block of a content message, when the key \<^verbatim>\<open>from\<close> is absent the
  heading names the value of \<^verbatim>\<open>actor\<close> if that key is present and \<^verbatim>\<open>Unknown\<close>
  otherwise; the quote of a resolved reply names the original sender by the same chain.
\<close>

theorem sender_fallback:
  assumes "format_message_lines E message idx = Inr ls"
    and "dict_get message (u ''type'') JNull \<noteq> JStr (u ''service'')"
  shows "(map_of message (u ''from'') = None \<longrightarrow>
            ls ! 0 = u ''### '' @ (case map_of message (u ''actor'') of
                                     Some v \<Rightarrow> py_str E v | None \<Rightarrow> u ''Unknown''))
       \<and> (\<forall>k original.
            truthy (dict_get message (u ''reply_to_message_id'') JNull)
            \<and> to_key (dict_get message (u ''reply_to_message_id'') JNull) = Some k
            \<and> idx k = Some original \<and> map_of original (u ''from'') = None \<longrightarrow>
            (\<exists>excerpt.
               ls ! 3 = u ''> **'' @ [8617] @ u '' Reply to ''
                 @ (case map_of original (u ''actor'') of
                      Some v \<Rightarrow> py_str E v | None \<Rightarrow> u ''Unknown'')
                 @ u '':** '' @ excerpt))"
  using assms
  by (auto simp: format_message_lines_def reply_lines_def Let_def bnd_eq_Inr dict_get_absent
      py_str_actor)

theorem sender_fallback_witness:
  "\<forall>E. \<exists>ls.
     format_message_lines E
       [(u ''id'', JInt 2), (u ''actor'', JStr (u ''Bob'')), (u ''reply_to_message_id'', JInt 1),
        (u ''text'', JStr (u ''x''))]
       [KNum 1 \<mapsto> [(u ''id'', JInt 1), (u ''text'', JStr (u ''y''))]] = Inr ls
     \<and> ls ! 0 = u ''### Bob''
     \<and> (\<exists>excerpt. ls ! 3 = u ''> **'' @ [8617] @ u '' Reply to Unknown:** '' @ excerpt)"
proof (intro allI)
  fix E
  let ?o = "[(u ''id'', JInt 1), (u ''text'', JStr (u ''y''))]"
  let ?m = "[(u ''id'', JInt 2), (u ''actor'', JStr (u ''Bob'')), (u ''reply_to_message_id'', JInt 1),
        (u ''text'', JStr (u ''x''))]"
  obtain ls where r: "format_message_lines E ?m [KNum 1 \<mapsto> ?o] = Inr ls"
    by (simp add: format_message_lines_def reply_lines_def Let_def dict_get_def u_def
        extract_text_content_def get_message_type_info_def has_key_def)
  have ns: "dict_get ?m (u ''type'') JNull \<noteq> JStr (u ''service'')"
    by (simp add: dict_get_def u_def)
  note fb = sender_fallback [OF r ns]
  from fb have a: "ls ! 0 = u ''### Bob''"
    by (simp add: u_def)
  from fb have "truthy (dict_get ?m (u ''reply_to_message_id'') JNull)
            \<and> to_key (dict_get ?m (u ''reply_to_message_id'') JNull) = Some (KNum 1)
            \<and> [KNum 1 \<mapsto> ?o] (KNum 1) = Some ?o \<and> map_of ?o (u ''from'') = None \<longrightarrow>
            (\<exists>excerpt.
               ls ! 3 = u ''> **'' @ [8617] @ u '' Reply to ''
                 @ (case map_of ?o (u ''actor'') of
                      Some v \<Rightarrow> py_str E v | None \<Rightarrow> u ''Unknown'')
                 @ u '':** '' @ excerpt)"
    by blast
  then have b: "\<exists>excerpt. ls ! 3 = u ''> **'' @ [8617] @ u '' Reply to Unknown:** '' @ excerpt"
    by (simp add: dict_get_def u_def)
  from r a b show "\<exists>ls. format_message_lines E ?m [KNum 1 \<mapsto> ?o] = Inr ls
     \<and> ls ! 0 = u ''### Bob''
     \<and> (\<exists>excerpt. ls ! 3 = u ''> **'' @ [8617] @ u '' Reply to Unknown:** '' @ excerpt)"
    by blast
qed

section \<open>Precedence of the media classifier\<close>

lemma media_first_match: "get_message_type_info E m = first_match (media_rules E m)"
  by (simp add: get_message_type_info_def media_rules_def Let_def)


lemma bracket_lit: "t = u ''['' @ x @ u '']'' \<Longrightarrow> t \<noteq> [] \<and> hd t = 91 \<and> last t = 93"
  by (simp add: u_def)

lemma media_rules_brackets:
  assumes "(applies, Inr t) \<in> set (media_rules E m)"
  shows "t \<noteq> [] \<and> hd t = 91 \<and> last t = 93"
proof -
  from assms have "\<exists>x. t = u ''['' @ x @ u '']''"
    unfolding media_rules_def
    apply (simp only: set_simps insert_iff empty_iff prod.inject)
    apply (elim disjE conjE)
              apply (simp_all add: u_def bnd_eq_Inr split: if_splits)
      apply (auto simp: as_dict_def py_add_def split: json.splits option.splits)
    done
  then show ?thesis using bracket_lit by blast
qed


lemma first_match_cases:
  "first_match rules = Inr [] \<or> (\<exists>applies. (applies, first_match rules) \<in> set rules)"
proof (induction rules)
  case Nil
  then show ?case by simp
next
  case (Cons rule rules)
  obtain applies tag where rule: "rule = (applies, tag)" by (cases rule)
  show ?case
  proof (cases applies)
    case True
    with rule have "(applies, first_match (rule # rules)) \<in> set (rule # rules)" by simp
    then show ?thesis by blast
  next
    case False
    with rule have eq: "first_match (rule # rules) = first_match rules" by simp
    from Cons.IH show ?thesis unfolding eq by auto
  qed
qed

lemma first_match_none: "\<not> list_ex fst rules \<Longrightarrow> first_match rules = Inr []"
  by (induction rules) auto

text \<open>
  C4.  The classifier returns the tag of the first rule that applies, in the order
  sticker, voice message, video message, animation, video file, audio file, photo, file,
  location, contact, poll.  A message whose media type is \<^verbatim>\<open>sticker\<close> gets the sticker
  tag, whatever else it carries, and never \<^verbatim>\<open>[Photo]\<close>; a message no rule applies to
  gets the empty string; a tag that is not empty opens with a bracket and closes with one.
\<close>

theorem media_precedence:
  "get_message_type_info E m = first_match (media_rules E m)
   \<and> (dict_get m (u ''media_type'') JNull = JStr (u ''sticker'') \<longrightarrow>
        get_message_type_info E m
          = Inr (u ''[Sticker '' @ py_str E (dict_get m (u ''sticker_emoji'') (JStr [])) @ u '']'')
        \<and> get_message_type_info E m \<noteq> Inr (u ''[Photo]''))
   \<and> (\<not> list_ex fst (media_rules E m) \<longrightarrow> get_message_type_info E m = Inr [])
   \<and> (\<forall>t. get_message_type_info E m = Inr t \<and> t \<noteq> [] \<longrightarrow> hd t = 91 \<and> last t = 93)"
proof -
  have a: "get_message_type_info E m = first_match (media_rules E m)"
    by (rule media_first_match)
  have b: "dict_get m (u ''media_type'') JNull = JStr (u ''sticker'') \<longrightarrow>
        get_message_type_info E m
          = Inr (u ''[Sticker '' @ py_str E (dict_get m (u ''sticker_emoji'') (JStr [])) @ u '']'')
        \<and> get_message_type_info E m \<noteq> Inr (u ''[Photo]'')"
    by (simp add: get_message_type_info_def Let_def u_def)
  have c: "\<not> list_ex fst (media_rules E m) \<longrightarrow> get_message_type_info E m = Inr []"
    unfolding a by (simp add: first_match_none)
  have d: "\<forall>t. get_message_type_info E m = Inr t \<and> t \<noteq> [] \<longrightarrow> hd t = 91 \<and> last t = 93"
  proof (intro allI impI)
    fix t assume t: "get_message_type_info E m = Inr t \<and> t \<noteq> []"
    with a first_match_cases [of "media_rules E m"]
    obtain applies where "(applies, Inr t) \<in> set (media_rules E m)" by auto
    then show "hd t = 91 \<and> last t = 93" using media_rules_brackets by blast
  qed
  show ?thesis
    by (rule conjI [OF a conjI [OF b conjI [OF c d]]])
qed

theorem media_precedence_witness:
  "\<forall>E. get_message_type_info E
          [(u ''media_type'', JStr (u ''sticker'')), (u ''sticker_emoji'', JStr (u '':)'')),
           (u ''photo'', JStr (u ''p.jpg''))]
        = Inr (u ''[Sticker :)]'')
     \<and> get_message_type_info E [(u ''text'', JStr (u ''hi''))] = Inr []"
proof (intro allI conjI)
  fix E
  let ?m = "[(u ''media_type'', JStr (u ''sticker'')), (u ''sticker_emoji'', JStr (u '':)'')),
           (u ''photo'', JStr (u ''p.jpg''))]"
  let ?n = "[(u ''text'', JStr (u ''hi''))]"
  have s: "dict_get ?m (u ''media_type'') JNull = JStr (u ''sticker'')"
    by (simp add: dict_get_def u_def)
  note sticker = media_precedence [of E ?m, THEN conjunct2, THEN conjunct1, rule_format, OF s,
      THEN conjunct1]
  then show "get_message_type_info E ?m = Inr (u ''[Sticker :)]'')"
    by (simp add: dict_get_def u_def)
  have n: "\<not> list_ex fst (media_rules E ?n)"
    by (simp add: media_rules_def dict_get_def has_key_def u_def)
  show "get_message_type_info E ?n = Inr []"
    by (rule media_precedence [of E ?n, THEN conjunct2, THEN conjunct2, THEN conjunct1,
          rule_format, OF n])
qed

section \<open>The timestamp formatter\<close>



























section \<open>Reply references\<close>

lemma map_of_dict_del: "map_of (dict_del k d) k' = (if k' = k then None else map_of d k')"
  by (induction d) (auto simp: dict_del_def)

lemma dict_get_del: "k' \<noteq> k \<Longrightarrow> dict_get (dict_del k d) k' dflt = dict_get d k' dflt"
  by (simp add: dict_get_def map_of_dict_del)

lemma dict_get_del_same: "dict_get (dict_del k d) k dflt = dflt"
  by (simp add: dict_get_def map_of_dict_del)

lemma has_key_del: "k' \<noteq> k \<Longrightarrow> has_key (dict_del k d) k' = has_key d k'"
  by (simp add: has_key_def map_of_dict_del)

lemma media_del:
  "get_message_type_info E (dict_del (u ''reply_to_message_id'') m) = get_message_type_info E m"
  by (simp add: get_message_type_info_def Let_def dict_get_del has_key_del u_def cong: if_cong)

lemma forward_del:
  "forward_lines E (dict_del (u ''reply_to_message_id'') m) = forward_lines E m"
  by (simp add: forward_lines_def Let_def dict_get_del u_def)

lemma actions_del:
  "action_messages E (dict_del (u ''reply_to_message_id'') m) actor = action_messages E m actor"
  by (simp add: action_messages_def dict_get_del u_def)

lemma service_keys_del:
  "dict_get (dict_del (u ''reply_to_message_id'') m) (u ''action'') d = dict_get m (u ''action'') d"
  "dict_get (dict_del (u ''reply_to_message_id'') m) (u ''actor'') d = dict_get m (u ''actor'') d"
  "dict_get (dict_del (u ''reply_to_message_id'') m) (u ''from'') d = dict_get m (u ''from'') d"
  by (simp_all add: dict_get_del u_def)

lemma service_del:
  "format_service_message E (dict_del (u ''reply_to_message_id'') m) = format_service_message E m"
  unfolding format_service_message_def Let_def actions_del service_keys_del by (rule refl)

lemma reply_del: "reply_lines E (dict_del (u ''reply_to_message_id'') m) idx = Inr []"
  by (simp add: reply_lines_def dict_get_del_same)


lemma text_del:
  "dict_get (dict_del (u ''reply_to_message_id'') m) (u ''text'') d = dict_get m (u ''text'') d"
  by (simp add: dict_get_del u_def)

lemma heading_del:
  "dict_get (dict_del (u ''reply_to_message_id'') m) (u ''type'') d = dict_get m (u ''type'') d"
  "dict_get (dict_del (u ''reply_to_message_id'') m) (u ''id'') d = dict_get m (u ''id'') d"
  "dict_get (dict_del (u ''reply_to_message_id'') m) (u ''date'') d = dict_get m (u ''date'') d"
  "dict_get (dict_del (u ''reply_to_message_id'') m) (u ''from'') d = dict_get m (u ''from'') d"
  "dict_get (dict_del (u ''reply_to_message_id'') m) (u ''actor'') d = dict_get m (u ''actor'') d"
  by (simp_all add: dict_get_del u_def)

text \<open>The block without the reference, written out.\<close>

lemma lines_del:
  "format_message_lines E (dict_del (u ''reply_to_message_id'') m) idx
   = (if dict_get m (u ''type'') JNull = JStr (u ''service'') then format_message_lines E m idx
      else bnd (extract_text_content E (dict_get m (u ''text'') (JStr []))) (\<lambda>text.
           bnd (get_message_type_info E m) (\<lambda>media_info.
             Inr ([u ''### '' @ py_str E (dict_get m (u ''from'')
                       (dict_get m (u ''actor'') (JStr (u ''Unknown'')))),
                   u ''*'' @ py_str E (format_timestamp (fromisoformat E)
                       (dict_get m (u ''date'') (JStr []))) @ u ''* | Message #''
                     @ py_str E (dict_get m (u ''id'') (JStr [])),
                   []]
                  @ forward_lines E m @ content_lines text media_info @ [[], u ''---'', []]))))"
  by (simp add: format_message_lines_def Let_def heading_del text_del media_del forward_del
      service_del reply_del)

text \<open>
  C2, amended.  A reply reference is resolved when it is truthy (not \<^verbatim>\<open>None\<close>, zero,
  \<^verbatim>\<open>False\<close> or empty) and a key of the index.  A message whose reference is falsy, or
  hashable and no key of the index, is rendered exactly as the same message without the
  reference: the reply part is omitted and adds no error.  A content message whose
  reference is resolved is rendered as the same message without the reference, with the
  quote and an empty line put after the three heading lines.
\<close>

theorem reply_block_iff_resolved:
  "((\<not> truthy (dict_get m (u ''reply_to_message_id'') JNull)
      \<or> (\<exists>k. to_key (dict_get m (u ''reply_to_message_id'') JNull) = Some k \<and> idx k = None)) \<longrightarrow>
      format_message_lines E m idx
        = format_message_lines E (dict_del (u ''reply_to_message_id'') m) idx)
   \<and> (\<forall>k original t.
        dict_get m (u ''type'') JNull \<noteq> JStr (u ''service'')
        \<and> truthy (dict_get m (u ''reply_to_message_id'') JNull)
        \<and> to_key (dict_get m (u ''reply_to_message_id'') JNull) = Some k
        \<and> idx k = Some original
        \<and> extract_text_content E (dict_get original (u ''text'') (JStr [])) = Inr t \<longrightarrow>
        format_message_lines E m idx
          = bnd (format_message_lines E (dict_del (u ''reply_to_message_id'') m) idx) (\<lambda>ls.
              Inr (take 3 ls
                   @ [u ''> **'' @ [8617] @ u '' Reply to ''
                        @ py_str E (dict_get original (u ''from'')
                             (dict_get original (u ''actor'') (JStr (u ''Unknown''))))
                        @ u '':** '' @ reply_excerpt t,
                      []]
                   @ drop 3 ls)))"
proof (intro conjI allI impI)
  assume "\<not> truthy (dict_get m (u ''reply_to_message_id'') JNull)
      \<or> (\<exists>k. to_key (dict_get m (u ''reply_to_message_id'') JNull) = Some k \<and> idx k = None)"
  then have "reply_lines E m idx = Inr []"
    by (auto simp: reply_lines_def Let_def)
  then show "format_message_lines E m idx
        = format_message_lines E (dict_del (u ''reply_to_message_id'') m) idx"
    unfolding lines_del by (simp add: format_message_lines_def Let_def)
next
  fix k original t
  assume a: "dict_get m (u ''type'') JNull \<noteq> JStr (u ''service'')
        \<and> truthy (dict_get m (u ''reply_to_message_id'') JNull)
        \<and> to_key (dict_get m (u ''reply_to_message_id'') JNull) = Some k
        \<and> idx k = Some original
        \<and> extract_text_content E (dict_get original (u ''text'') (JStr [])) = Inr t"
  then have r: "reply_lines E m idx
      = Inr [u ''> **'' @ [8617] @ u '' Reply to ''
                        @ py_str E (dict_get original (u ''from'')
                             (dict_get original (u ''actor'') (JStr (u ''Unknown''))))
                        @ u '':** '' @ reply_excerpt t, []]"
    by (simp add: reply_lines_def Let_def)
  show "format_message_lines E m idx
          = bnd (format_message_lines E (dict_del (u ''reply_to_message_id'') m) idx) (\<lambda>ls.
              Inr (take 3 ls
                   @ [u ''> **'' @ [8617] @ u '' Reply to ''
                        @ py_str E (dict_get original (u ''from'')
                             (dict_get original (u ''actor'') (JStr (u ''Unknown''))))
                        @ u '':** '' @ reply_excerpt t,
                      []]
                   @ drop 3 ls))"
    unfolding lines_del using a r
    by (cases "extract_text_content E (dict_get m (u ''text'') (JStr []))";
        cases "get_message_type_info E m")
       (simp_all add: format_message_lines_def Let_def)
qed


theorem reply_block_iff_resolved_witness:
  "\<forall>E.
     format_message_lines E
       [(u ''id'', JInt 2), (u ''reply_to_message_id'', JInt 99), (u ''date'', JInt 0),
        (u ''text'', JStr (u ''x''))]
       [KNum 1 \<mapsto> [(u ''id'', JInt 1), (u ''from'', JStr (u ''Al'')), (u ''text'', JStr (u ''y''))]]
     = Inr [u ''### Unknown'', u ''*0* | Message #2'', [], u ''x'', [], u ''---'', []]
   \<and> format_message_lines E
       [(u ''id'', JInt 2), (u ''reply_to_message_id'', JInt 1), (u ''date'', JInt 0),
        (u ''text'', JStr (u ''x''))]
       [KNum 1 \<mapsto> [(u ''id'', JInt 1), (u ''from'', JStr (u ''Al'')), (u ''text'', JStr (u ''y''))]]
     = Inr [u ''### Unknown'', u ''*0* | Message #2'', [],
            u ''> **'' @ [8617] @ u '' Reply to Al:** y'', [], u ''x'', [], u ''---'', []]"
proof (intro allI conjI)
  fix E
  let ?o = "[(u ''id'', JInt 1), (u ''from'', JStr (u ''Al'')), (u ''text'', JStr (u ''y''))]"
  let ?a = "[(u ''id'', JInt 2), (u ''reply_to_message_id'', JInt 99), (u ''date'', JInt 0),
        (u ''text'', JStr (u ''x''))]"
  let ?b = "[(u ''id'', JInt 2), (u ''reply_to_message_id'', JInt 1), (u ''date'', JInt 0),
        (u ''text'', JStr (u ''x''))]"
  let ?c = "[(u ''id'', JInt 2), (u ''date'', JInt 0), (u ''text'', JStr (u ''x''))]"
  have da: "dict_del (u ''reply_to_message_id'') ?a = ?c"
    and db: "dict_del (u ''reply_to_message_id'') ?b = ?c"
    by (simp_all add: dict_del_def u_def)
  have c: "format_message_lines E ?c [KNum 1 \<mapsto> ?o]
      = Inr [u ''### Unknown'', u ''*0* | Message #2'', [], u ''x'', [], u ''---'', []]"
    by (simp add: format_message_lines_def reply_lines_def forward_lines_def content_lines_def
        Let_def dict_get_def u_def extract_text_content_def get_message_type_info_def has_key_def
        format_timestamp_def str_of_int_def digits.simps)
  have "\<not> truthy (dict_get ?a (u ''reply_to_message_id'') JNull)
      \<or> (\<exists>k. to_key (dict_get ?a (u ''reply_to_message_id'') JNull) = Some k
            \<and> [KNum 1 \<mapsto> ?o] k = None)"
    by (simp add: dict_get_def u_def)
  from reply_block_iff_resolved [of ?a "[KNum 1 \<mapsto> ?o]" E, THEN conjunct1, rule_format, OF this]
  show "format_message_lines E ?a [KNum 1 \<mapsto> ?o]
      = Inr [u ''### Unknown'', u ''*0* | Message #2'', [], u ''x'', [], u ''---'', []]"
    unfolding da c .
  have "dict_get ?b (u ''type'') JNull \<noteq> JStr (u ''service'')
        \<and> truthy (dict_get ?b (u ''reply_to_message_id'') JNull)
        \<and> to_key (dict_get ?b (u ''reply_to_message_id'') JNull) = Some (KNum 1)
        \<and> [KNum 1 \<mapsto> ?o] (KNum 1) = Some ?o
        \<and> extract_text_content E (dict_get ?o (u ''text'') (JStr [])) = Inr (u ''y'')"
    by (simp add: dict_get_def u_def extract_text_content_def)
  from reply_block_iff_resolved [of ?b "[KNum 1 \<mapsto> ?o]" E, THEN conjunct2, rule_format, OF this]
  show "format_message_lines E ?b [KNum 1 \<mapsto> ?o]
     = Inr [u ''### Unknown'', u ''*0* | Message #2'', [],
            u ''> **'' @ [8617] @ u '' Reply to Al:** y'', [], u ''x'', [], u ''---'', []]"
    unfolding db c by (simp add: dict_get_def u_def reply_excerpt_def replace_char_def)
qed

text \<open>
  C2 as stated fails on the identifier 0: the index built from the two messages maps 0 to
  the first, the second refers to 0, and its block has no quote, since the test
  \<^verbatim>\<open>reply_to_id and reply_to_id in message_index\<close> takes 0 for no reference.
\<close>

theorem reply_to_zero_counterexample:
  "\<forall>E.
     build_message_index
       [[(u ''id'', JInt 0), (u ''text'', JStr (u ''a''))],
        [(u ''id'', JInt 1), (u ''reply_to_message_id'', JInt 0), (u ''date'', JInt 0),
         (u ''text'', JStr (u ''b''))]]
     = Inr [KNum 0 \<mapsto> [(u ''id'', JInt 0), (u ''text'', JStr (u ''a''))],
            KNum 1 \<mapsto> [(u ''id'', JInt 1), (u ''reply_to_message_id'', JInt 0), (u ''date'', JInt 0),
                         (u ''text'', JStr (u ''b''))]]
   \<and> to_key (JInt 0) = Some (KNum 0)
   \<and> format_message_lines E
       [(u ''id'', JInt 1), (u ''reply_to_message_id'', JInt 0), (u ''date'', JInt 0),
        (u ''text'', JStr (u ''b''))]
       [KNum 0 \<mapsto> [(u ''id'', JInt 0), (u ''text'', JStr (u ''a''))],
        KNum 1 \<mapsto> [(u ''id'', JInt 1), (u ''reply_to_message_id'', JInt 0), (u ''date'', JInt 0),
                     (u ''text'', JStr (u ''b''))]]
     = Inr [u ''### Unknown'', u ''*0* | Message #1'', [], u ''b'', [], u ''---'', []]"
  by (simp add: build_message_index_def format_message_lines_def reply_lines_def forward_lines_def
      content_lines_def Let_def dict_get_def u_def extract_text_content_def
      get_message_type_info_def has_key_def format_timestamp_def str_of_int_def digits.simps)

section \<open>Rendering one message without exceptions\<close>

lemma extract_total:
  assumes "text_ok v"
  shows "\<exists>t. extract_text_content E v = Inr t"
proof (cases v)
  case (JList items)
  with assms have "list_all span_ok items" by (simp add: text_ok_def)
  from extract_items_concat [OF this, of "[]" "[]" E]
  obtain vs ss where "extract_items E items [] = Inr vs" "strs_of vs = Some ss" by auto
  with JList show ?thesis by (simp add: extract_text_content_def join_values_def)
qed (simp_all add: extract_text_content_def)

lemma service_total:
  assumes "to_key (dict_get m (u ''action'') (JStr [])) \<noteq> None"
  shows "\<exists>t. format_service_message E m = Inr t"
  using assms
  by (auto simp: format_service_message_def Let_def split: option.splits key.splits)

lemma media_total:
  assumes "media_ok m"
  shows "\<exists>t. get_message_type_info E m = Inr t"
proof -
  consider (is_kind) "dict_get m (u ''media_type'') JNull \<in> set (map JStr media_kinds)"
    | (is_photo) "dict_get m (u ''media_type'') JNull \<notin> set (map JStr media_kinds)" "has_key m (u ''photo'')"
    | (is_file) "dict_get m (u ''media_type'') JNull \<notin> set (map JStr media_kinds)"
        "\<not> has_key m (u ''photo'')" "has_key m (u ''file'')"
    | (is_rest) "dict_get m (u ''media_type'') JNull \<notin> set (map JStr media_kinds)"
        "\<not> has_key m (u ''photo'')" "\<not> has_key m (u ''file'')"
    by blast
  then show ?thesis
  proof cases
    case is_kind
    then consider
        "dict_get m (u ''media_type'') JNull = JStr (u ''sticker'')"
      | "dict_get m (u ''media_type'') JNull = JStr (u ''voice_message'')"
      | "dict_get m (u ''media_type'') JNull = JStr (u ''video_message'')"
      | "dict_get m (u ''media_type'') JNull = JStr (u ''animation'')"
      | "dict_get m (u ''media_type'') JNull = JStr (u ''video_file'')"
      | "dict_get m (u ''media_type'') JNull = JStr (u ''audio_file'')"
      by (auto simp: media_kinds_def)
    then show ?thesis
      by cases (simp_all add: get_message_type_info_def Let_def u_def)
  next
    case is_photo
    then show ?thesis
      by (simp add: get_message_type_info_def Let_def media_kinds_def)
  next
    case is_file
    then show ?thesis
      by (simp add: get_message_type_info_def Let_def media_kinds_def)
  next
    case is_rest
    with assms have ok:
      "if has_key m (u ''location_information'')
          then is_dict (dict_get m (u ''location_information'') (JDict []))
          else if has_key m (u ''contact_information'')
          then (case dict_get m (u ''contact_information'') (JDict []) of
                  JDict c \<Rightarrow> is_str (dict_get c (u ''first_name'') (JStr []))
                             \<and> is_str (dict_get c (u ''last_name'') (JStr []))
                | _ \<Rightarrow> False)
          else if has_key m (u ''poll'')
          then is_dict (dict_get m (u ''poll'') (JDict []))
          else True"
      by (simp add: media_ok_def)
    have g: "get_message_type_info E m =
      (if has_key m (u ''location_information'') then
          bnd (as_dict (dict_get m (u ''location_information'') (JDict []))) (\<lambda>loc.
            Inr (u ''[Location: '' @ py_str E (dict_get loc (u ''latitude'') (JStr [])) @ u '', ''
                 @ py_str E (dict_get loc (u ''longitude'') (JStr [])) @ u '']''))
        else if has_key m (u ''contact_information'') then
          bnd (as_dict (dict_get m (u ''contact_information'') (JDict []))) (\<lambda>contact.
          bnd (py_add (dict_get contact (u ''first_name'') (JStr [])) (JStr [32])) (\<lambda>first.
          bnd (py_add first (dict_get contact (u ''last_name'') (JStr []))) (\<lambda>name.
            case name of
              JStr n \<Rightarrow> Inr (u ''[Contact: '' @ strip n @ u '' - ''
                         @ py_str E (dict_get contact (u ''phone_number'') (JStr [])) @ u '']'')
            | _ \<Rightarrow> Inl AttributeError)))
        else if has_key m (u ''poll'') then
          bnd (as_dict (dict_get m (u ''poll'') (JDict []))) (\<lambda>poll.
            Inr (u ''[Poll: '' @ py_str E (dict_get poll (u ''question'') (JStr (u ''Poll'')))
                 @ u '']''))
        else Inr [])"
      using is_rest by (simp add: get_message_type_info_def Let_def media_kinds_def)
    show ?thesis
      unfolding g using ok
      by (auto simp: is_dict_def is_str_def as_dict_def py_add_def
          split: if_splits json.splits)
  qed
qed


lemma reply_total:
  assumes "\<not> truthy (dict_get m (u ''reply_to_message_id'') JNull)
            \<or> to_key (dict_get m (u ''reply_to_message_id'') JNull) \<noteq> None"
    and "\<And>k original. idx k = Some original \<Longrightarrow> text_ok (dict_get original (u ''text'') (JStr []))"
  shows "\<exists>ls. reply_lines E m idx = Inr ls"
proof (cases "truthy (dict_get m (u ''reply_to_message_id'') JNull)")
  case False
  then show ?thesis by (simp add: reply_lines_def Let_def)
next
  case True
  with assms(1) obtain k where k: "to_key (dict_get m (u ''reply_to_message_id'') JNull) = Some k"
    by auto
  show ?thesis
  proof (cases "idx k")
    case None
    with True k show ?thesis by (simp add: reply_lines_def Let_def)
  next
    case (Some original)
    from assms(2) [OF Some] obtain t
      where "extract_text_content E (dict_get original (u ''text'') (JStr [])) = Inr t"
      using extract_total by blast
    with True k Some show ?thesis by (simp add: reply_lines_def Let_def)
  qed
qed

lemma format_message_total:
  assumes "message_ok m"
    and "\<And>k original. idx k = Some original \<Longrightarrow> text_ok (dict_get original (u ''text'') (JStr []))"
  shows "\<exists>out. format_message E m idx = Inr out"
proof (cases "dict_get m (u ''type'') JNull = JStr (u ''service'')")
  case True
  with assms(1) obtain t where "format_service_message E m = Inr t"
    using service_total by (auto simp: message_ok_def)
  with True show ?thesis
    by (simp add: format_message_def format_message_lines_def Let_def)
next
  case False
  with assms(1) have ok: "\<not> truthy (dict_get m (u ''reply_to_message_id'') JNull)
            \<or> to_key (dict_get m (u ''reply_to_message_id'') JNull) \<noteq> None"
    "text_ok (dict_get m (u ''text'') (JStr []))" "media_ok m"
    by (simp_all add: message_ok_def)
  have "\<exists>ls. reply_lines E m idx = Inr ls"
    using ok(1) assms(2) by (rule reply_total)
  then obtain r where r: "reply_lines E m idx = Inr r"
    by blast
  from extract_total [OF ok(2)] obtain t
    where t: "extract_text_content E (dict_get m (u ''text'') (JStr [])) = Inr t" by blast
  from media_total [OF ok(3)] obtain i where i: "get_message_type_info E m = Inr i" by blast
  from False r t i show ?thesis
    by (simp add: format_message_def format_message_lines_def Let_def)
qed

section \<open>The date rows of the header\<close>

lemma min_from_strs: "min_from (JStr b) (map JStr ss) = Inr (JStr (fold min ss b))"
proof (induction ss arbitrary: b)
  case Nil
  then show ?case by simp
next
  case (Cons s ss)
  have "(if s < b then JStr s else JStr b) = JStr (min s b)"
    by (auto simp: min_def)
  with Cons show ?case by simp
qed

lemma max_from_strs: "max_from (JStr b) (map JStr ss) = Inr (JStr (fold max ss b))"
proof (induction ss arbitrary: b)
  case Nil
  then show ?case by simp
next
  case (Cons s ss)
  have "(if b < s then JStr s else JStr b) = JStr (max s b)"
    by (auto simp: max_def)
  with Cons show ?case by simp
qed

lemma truthy_dates:
  assumes "dates_ok messages"
  shows "filter truthy (map (\<lambda>m. dict_get m (u ''date'') JNull) messages)
         = map JStr (date_strings messages)"
  using assms
proof (induction messages)
  case Nil
  then show ?case by (simp add: date_strings_def)
next
  case (Cons m ms)
  then have ih: "filter truthy (map (\<lambda>m. dict_get m (u ''date'') JNull) ms)
         = map JStr (date_strings ms)"
    by (simp add: dates_ok_def)
  from Cons.prems have "\<not> truthy (dict_get m (u ''date'') JNull) \<or> is_str (dict_get m (u ''date'') JNull)"
    by (simp add: dates_ok_def)
  then show ?case
    using ih by (cases "dict_get m (u ''date'') JNull") (auto simp: date_strings_def is_str_def)
qed

lemma date_rows_strs:
  assumes "dates_ok messages"
  shows "date_rows E messages
         = Inr (if date_strings messages = [] then []
                else [u ''| **First Message** | ''
                        @ py_str E (format_timestamp (fromisoformat E)
                             (JStr (Min (set (date_strings messages))))) @ u '' |'',
                      u ''| **Last Message** | ''
                        @ py_str E (format_timestamp (fromisoformat E)
                             (JStr (Max (set (date_strings messages))))) @ u '' |''])"
proof (cases "date_strings messages")
  case Nil
  with truthy_dates [OF assms] show ?thesis by (simp add: date_rows_def)
next
  case (Cons d ds)
  have "Min (set (d # ds)) = fold min ds d" "Max (set (d # ds)) = fold max ds d"
    by (rule Min.set_eq_fold, rule Max.set_eq_fold)
  with Cons truthy_dates [OF assms] show ?thesis
    by (simp add: date_rows_def min_from_strs max_from_strs del: set_simps)
qed


lemma header_lines_shape:
  assumes "generate_chat_header_lines E chat = Inr ls"
  obtains t msgs rows ps sorted_ps where
    "dict_get chat (u ''type'') (JStr (u ''unknown'')) = JStr t"
    "message_list (dict_get chat (u ''messages'') (JList [])) = Inr msgs"
    "date_rows E msgs = Inr rows"
    "collect_participants msgs [] = Inr ps"
    "py_sorted ps = Inr sorted_ps"
    "ls = [u ''# '' @ py_str E (dict_get chat (u ''name'') (JStr (u ''Telegram Chat''))),
           [],
           u ''## Chat Details'',
           [],
           u ''| Property | Value |'',
           u ''|----------|-------|'',
           u ''| **Name** | '' @ py_str E (dict_get chat (u ''name'') (JStr (u ''Telegram Chat'')))
             @ u '' |'',
           u ''| **Type** | '' @ title E (replace_char 95 [32] t) @ u '' |'',
           u ''| **ID** | '' @ py_str E (dict_get chat (u ''id'') (JStr [])) @ u '' |'',
           u ''| **Total Messages** | '' @ str_of_int (int (length msgs)) @ u '' |'']
          @ rows
          @ (if ps \<noteq> []
             then [u ''| **Participants** | '' @ str_of_int (int (length ps)) @ u '' |'']
             else [])
          @ [[]]
          @ (if ps \<noteq> []
             then [u ''### Participants'', []] @ map (\<lambda>p. u ''- '' @ py_str E p) sorted_ps @ [[]]
             else [])
          @ [u ''---'', [], u ''## Messages'', []]"
  using assms
  by (auto simp: generate_chat_header_lines_def Let_def bnd_eq_Inr split: json.splits)

text \<open>
  C5, amended.  In the header of an archive whose dates are strings, a line opens with the
  label of the first-message row exactly when some message has a date that is not empty,
  and so for the last-message row.  The two rows are then the eleventh and the twelfth
  line, and their values are the timestamp formatter applied to the least and to the
  greatest of the raw date strings in the lexicographic order of strings.
\<close>

theorem header_date_rows:
  assumes "generate_chat_header_lines E chat = Inr ls"
    and "message_list (dict_get chat (u ''messages'') (JList [])) = Inr msgs"
    and "dates_ok msgs"
  shows "((\<exists>l \<in> set ls. take 22 l = u ''| **First Message** | '') \<longleftrightarrow> date_strings msgs \<noteq> [])
       \<and> ((\<exists>l \<in> set ls. take 21 l = u ''| **Last Message** | '') \<longleftrightarrow> date_strings msgs \<noteq> [])
       \<and> (date_strings msgs \<noteq> [] \<longrightarrow>
            ls ! 10 = u ''| **First Message** | ''
                        @ py_str E (format_timestamp (fromisoformat E)
                             (JStr (Min (set (date_strings msgs))))) @ u '' |''
            \<and> ls ! 11 = u ''| **Last Message** | ''
                        @ py_str E (format_timestamp (fromisoformat E)
                             (JStr (Max (set (date_strings msgs))))) @ u '' |'')"
proof -
  from assms(1) obtain t msgs' rows ps sorted_ps where sh0:
    "dict_get chat (u ''type'') (JStr (u ''unknown'')) = JStr t"
    and sh: "message_list (dict_get chat (u ''messages'') (JList [])) = Inr msgs'"
    "date_rows E msgs' = Inr rows"
    "collect_participants msgs' [] = Inr ps"
    "py_sorted ps = Inr sorted_ps"
    "ls = [u ''# '' @ py_str E (dict_get chat (u ''name'') (JStr (u ''Telegram Chat''))),
           [],
           u ''## Chat Details'',
           [],
           u ''| Property | Value |'',
           u ''|----------|-------|'',
           u ''| **Name** | '' @ py_str E (dict_get chat (u ''name'') (JStr (u ''Telegram Chat'')))
             @ u '' |'',
           u ''| **Type** | '' @ title E (replace_char 95 [32] t) @ u '' |'',
           u ''| **ID** | '' @ py_str E (dict_get chat (u ''id'') (JStr [])) @ u '' |'',
           u ''| **Total Messages** | '' @ str_of_int (int (length msgs')) @ u '' |'']
          @ rows
          @ (if ps \<noteq> []
             then [u ''| **Participants** | '' @ str_of_int (int (length ps)) @ u '' |'']
             else [])
          @ [[]]
          @ (if ps \<noteq> []
             then [u ''### Participants'', []] @ map (\<lambda>p. u ''- '' @ py_str E p) sorted_ps @ [[]]
             else [])
          @ [u ''---'', [], u ''## Messages'', []]"
    by (rule header_lines_shape)
  from sh(1) assms(2) have m: "msgs' = msgs" by simp
  from sh(2) date_rows_strs [OF assms(3), of E] have rows:
    "rows = (if date_strings msgs = [] then []
                else [u ''| **First Message** | ''
                        @ py_str E (format_timestamp (fromisoformat E)
                             (JStr (Min (set (date_strings msgs))))) @ u '' |'',
                      u ''| **Last Message** | ''
                        @ py_str E (format_timestamp (fromisoformat E)
                             (JStr (Max (set (date_strings msgs))))) @ u '' |''])"
    unfolding m by simp
  show ?thesis
  proof (cases "date_strings msgs = []")
    case True
    with rows have "rows = []" by simp
    with sh(5) True show ?thesis
      by (auto simp: u_def)
  next
    case False
    with rows sh(5) show ?thesis
      by (auto simp: u_def)
  qed
qed


theorem header_date_rows_witness:
  "\<forall>E. \<exists>ls.
     generate_chat_header_lines E
       [(u ''name'', JStr (u ''G'')),
        (u ''messages'', JList [JDict [(u ''date'', JStr (u ''2024-01-02T09:00:00''))],
                                JDict [(u ''text'', JStr (u ''x''))],
                                JDict [(u ''date'', JStr (u ''2024-01-01T10:00:00''))]])] = Inr ls
     \<and> ls ! 10 = u ''| **First Message** | ''
                   @ py_str E (format_timestamp (fromisoformat E) (JStr (u ''2024-01-01T10:00:00'')))
                   @ u '' |''
     \<and> ls ! 11 = u ''| **Last Message** | ''
                   @ py_str E (format_timestamp (fromisoformat E) (JStr (u ''2024-01-02T09:00:00'')))
                   @ u '' |''"
proof (intro allI)
  fix E
  let ?msgs = "[[(u ''date'', JStr (u ''2024-01-02T09:00:00''))], [(u ''text'', JStr (u ''x''))],
                [(u ''date'', JStr (u ''2024-01-01T10:00:00''))]]"
  let ?chat = "[(u ''name'', JStr (u ''G'')),
        (u ''messages'', JList [JDict [(u ''date'', JStr (u ''2024-01-02T09:00:00''))],
                                JDict [(u ''text'', JStr (u ''x''))],
                                JDict [(u ''date'', JStr (u ''2024-01-01T10:00:00''))]])]"
  have ml: "message_list (dict_get ?chat (u ''messages'') (JList [])) = Inr ?msgs"
    by (simp add: message_list_def dict_get_def u_def)
  have ok: "dates_ok ?msgs"
    by (simp add: dates_ok_def dict_get_def is_str_def u_def)
  have ds: "date_strings ?msgs = [u ''2024-01-02T09:00:00'', u ''2024-01-01T10:00:00'']"
    by (simp add: date_strings_def dict_get_def u_def)
  have mn: "Min (set (date_strings ?msgs)) = u ''2024-01-01T10:00:00''"
    and mx: "Max (set (date_strings ?msgs)) = u ''2024-01-02T09:00:00''"
    unfolding ds by (simp_all add: u_def min_def max_def)
  have "date_rows E ?msgs \<noteq> Inl TypeError \<and> date_rows E ?msgs \<noteq> Inl AttributeError"
    by (simp add: date_rows_strs [OF ok])
  then obtain rows where rows: "date_rows E ?msgs = Inr rows"
    by (cases "date_rows E ?msgs") (auto intro: error.exhaust)
  have cp: "collect_participants ?msgs [] = Inr []"
    by (simp add: dict_get_def u_def)
  obtain ls where ls: "generate_chat_header_lines E ?chat = Inr ls"
    using ml rows cp by (simp add: generate_chat_header_lines_def Let_def py_sorted_def)
      (simp add: dict_get_def u_def py_sorted_def)
  from header_date_rows [OF ls ml ok, THEN conjunct2, THEN conjunct2] ds
  have "ls ! 10 = u ''| **First Message** | ''
                        @ py_str E (format_timestamp (fromisoformat E)
                             (JStr (Min (set (date_strings ?msgs))))) @ u '' |''
            \<and> ls ! 11 = u ''| **Last Message** | ''
                        @ py_str E (format_timestamp (fromisoformat E)
                             (JStr (Max (set (date_strings ?msgs))))) @ u '' |''"
    by simp
  then have "ls ! 10 = u ''| **First Message** | ''
                   @ py_str E (format_timestamp (fromisoformat E) (JStr (u ''2024-01-01T10:00:00'')))
                   @ u '' |''
     \<and> ls ! 11 = u ''| **Last Message** | ''
                   @ py_str E (format_timestamp (fromisoformat E) (JStr (u ''2024-01-02T09:00:00'')))
                   @ u '' |''"
    unfolding mn mx .
  with ls show "\<exists>ls. generate_chat_header_lines E ?chat = Inr ls
     \<and> ls ! 10 = u ''| **First Message** | ''
                   @ py_str E (format_timestamp (fromisoformat E) (JStr (u ''2024-01-01T10:00:00'')))
                   @ u '' |''
     \<and> ls ! 11 = u ''| **Last Message** | ''
                   @ py_str E (format_timestamp (fromisoformat E) (JStr (u ''2024-01-02T09:00:00'')))
                   @ u '' |''"
    by blast
qed

text \<open>
  C5 as stated fails on a message that carries a date field holding the empty string: the
  comprehension \<^verbatim>\<open>[m.get('date') for m in messages if m.get('date')]\<close> drops it, and the
  header has neither row.
\<close>

theorem empty_date_counterexample:
  "\<forall>E. has_key [(u ''date'', JStr [])] (u ''date'')
     \<and> generate_chat_header_lines E
          [(u ''name'', JStr (u ''G'')), (u ''id'', JInt 7),
           (u ''messages'', JList [JDict [(u ''date'', JStr [])]])]
        = Inr [u ''# G'', [], u ''## Chat Details'', [], u ''| Property | Value |'',
               u ''|----------|-------|'', u ''| **Name** | G |'',
               u ''| **Type** | '' @ title E (u ''unknown'') @ u '' |'',
               u ''| **ID** | 7 |'', u ''| **Total Messages** | 1 |'',
               [], u ''---'', [], u ''## Messages'', []]"
  by (simp add: generate_chat_header_lines_def Let_def message_list_def date_rows_def
      py_sorted_def dict_get_def has_key_def u_def replace_char_def str_of_int_def digits.simps)

section \<open>The participants of the header\<close>

lemma to_key_img: "Some (KStr s) \<in> (\<lambda>x. Some (KStr x)) ` set as \<longleftrightarrow> s \<in> set as"
  by auto

lemma collect_participants_strs:
  assumes "senders_ok messages" and "distinct as"
  shows "\<exists>ps. collect_participants messages (map JStr as) = Inr (map JStr ps)
            \<and> distinct ps \<and> set ps = set as \<union> set (sender_strings messages)"
  using assms
proof (induction messages arbitrary: as)
  case Nil
  then show ?case by (auto simp: sender_strings_def)
next
  case (Cons m ms)
  from Cons.prems have ok: "senders_ok ms"
    and m: "\<not> truthy (sender_or_actor m) \<or> is_str (sender_or_actor m)"
    by (simp_all add: senders_ok_def)
  have step: "collect_participants (m # ms) (map JStr as)
     = (if truthy (sender_or_actor m) then
           (case to_key (sender_or_actor m) of
              None \<Rightarrow> Inl TypeError
            | Some k \<Rightarrow>
                collect_participants ms
                  (if Some k \<in> set (map to_key (map JStr as)) then map JStr as
                   else map JStr as @ [sender_or_actor m]))
         else collect_participants ms (map JStr as))"
    by (simp only: collect_participants.simps Let_def sender_or_actor_def)
  show ?case
  proof (cases "truthy (sender_or_actor m)")
    case False
    then have "sender_strings (m # ms) = sender_strings ms"
      by (cases "sender_or_actor m") (simp_all add: sender_strings_def)
    moreover from False have "collect_participants (m # ms) (map JStr as)
        = collect_participants ms (map JStr as)"
      unfolding step by simp
    ultimately show ?thesis using Cons.IH [OF ok Cons.prems(2)] by simp
  next
    case tr: True
    with m obtain s where s: "sender_or_actor m = JStr s" "s \<noteq> []"
      by (cases "sender_or_actor m") (auto simp: is_str_def)
    then have ss: "sender_strings (m # ms) = s # sender_strings ms"
      by (simp add: sender_strings_def)
    show ?thesis
    proof (cases "s \<in> set as")
      case True
      have "collect_participants (m # ms) (map JStr as)
          = collect_participants ms (map JStr as)"
        unfolding step using s True by (simp add: to_key_img)
      with Cons.IH [OF ok Cons.prems(2)] ss True show ?thesis by auto
    next
      case False
      have "collect_participants (m # ms) (map JStr as)
          = collect_participants ms (map JStr (as @ [s]))"
        unfolding step using s False by (simp add: to_key_img)
      moreover from False Cons.prems(2) have "distinct (as @ [s])" by simp
      ultimately show ?thesis using Cons.IH [OF ok, of "as @ [s]"] ss by auto
    qed
  qed
qed

lemma py_sorted_strs: "py_sorted (map JStr ps) = Inr (map JStr (sort ps))"
proof -
  have "strs_of (map JStr ps) = Some ps" by (induction ps) simp_all
  then show ?thesis by (simp add: py_sorted_def)
qed

lemma sort_distinct: "distinct ps \<Longrightarrow> sort ps = sorted_list_of_set (set ps)"
  by (simp add: sorted_list_of_set_sort_remdups distinct_remdups_id)


lemma date_rows_shape:
  assumes "date_rows E msgs = Inr rows"
  shows "rows = [] \<or> (\<exists>a b. rows = [u ''| **First Message** | '' @ a, u ''| **Last Message** | '' @ b])"
  using assms
  by (auto simp: date_rows_def Let_def bnd_eq_Inr split: list.splits)

text \<open>
  C6, amended.  In the header of an archive whose senders are strings: when no message has
  a sender-or-actor value that is not empty, no line opens with the label of the
  participants row; otherwise the header ends with the participants row, whose count is
  the number of distinct such values, an empty line, the heading of the list, an empty
  line, one bullet for each distinct value in the increasing lexicographic order of
  strings (each once), and the five closing lines.  Before the row stand the ten lines of
  the table and the two date rows when there are any.
\<close>

theorem header_participants:
  assumes "generate_chat_header_lines E chat = Inr ls"
    and "message_list (dict_get chat (u ''messages'') (JList [])) = Inr msgs"
    and "senders_ok msgs"
  shows "(sender_strings msgs = [] \<longrightarrow>
            \<not> (\<exists>l \<in> set ls. take 21 l = u ''| **Participants** | ''))
       \<and> (sender_strings msgs \<noteq> [] \<longrightarrow>
            (\<exists>pre. (length pre = 10 \<or> length pre = 12)
               \<and> ls = pre
                   @ [u ''| **Participants** | ''
                        @ str_of_int (int (card (set (sender_strings msgs)))) @ u '' |'',
                      [], u ''### Participants'', []]
                   @ map (\<lambda>p. u ''- '' @ p) (sorted_list_of_set (set (sender_strings msgs)))
                   @ [[], u ''---'', [], u ''## Messages'', []]))"
proof -
  from assms(1) obtain t msgs' rows ps sorted_ps where sh0:
    "dict_get chat (u ''type'') (JStr (u ''unknown'')) = JStr t"
    and sh: "message_list (dict_get chat (u ''messages'') (JList [])) = Inr msgs'"
    "date_rows E msgs' = Inr rows"
    "collect_participants msgs' [] = Inr ps"
    "py_sorted ps = Inr sorted_ps"
    "ls = [u ''# '' @ py_str E (dict_get chat (u ''name'') (JStr (u ''Telegram Chat''))),
           [],
           u ''## Chat Details'',
           [],
           u ''| Property | Value |'',
           u ''|----------|-------|'',
           u ''| **Name** | '' @ py_str E (dict_get chat (u ''name'') (JStr (u ''Telegram Chat'')))
             @ u '' |'',
           u ''| **Type** | '' @ title E (replace_char 95 [32] t) @ u '' |'',
           u ''| **ID** | '' @ py_str E (dict_get chat (u ''id'') (JStr [])) @ u '' |'',
           u ''| **Total Messages** | '' @ str_of_int (int (length msgs')) @ u '' |'']
          @ rows
          @ (if ps \<noteq> []
             then [u ''| **Participants** | '' @ str_of_int (int (length ps)) @ u '' |'']
             else [])
          @ [[]]
          @ (if ps \<noteq> []
             then [u ''### Participants'', []] @ map (\<lambda>p. u ''- '' @ py_str E p) sorted_ps @ [[]]
             else [])
          @ [u ''---'', [], u ''## Messages'', []]"
    by (rule header_lines_shape)
  from sh(1) assms(2) have m: "msgs' = msgs" by simp
  from collect_participants_strs [OF assms(3), of "[]"] obtain ns where ns:
    "collect_participants msgs [] = Inr (map JStr ns)" "distinct ns"
    "set ns = set (sender_strings msgs)"
    by auto
  with sh(3) m have ps: "ps = map JStr ns" by simp
  with sh(4) have sorted_ps: "sorted_ps = map JStr (sort ns)"
    by (simp add: py_sorted_strs)
  from ns have card: "length ns = card (set (sender_strings msgs))"
    using distinct_card by fastforce
  from ns have srt: "sort ns = sorted_list_of_set (set (sender_strings msgs))"
    using sort_distinct by fastforce
  from ns have emp: "ns = [] \<longleftrightarrow> sender_strings msgs = []"
    by (metis set_empty)
  from date_rows_shape [OF sh(2)] consider (none) "rows = []"
    | (both) a b where "rows = [u ''| **First Message** | '' @ a, u ''| **Last Message** | '' @ b]"
    by blast
  then show ?thesis
  proof cases
    case none
    show ?thesis
    proof (cases "ns = []")
      case True
      with none sh(5) ps emp show ?thesis by (auto simp: u_def)
    next
      case False
      let ?pre = "take 10 ls"
      from False none sh(5) ps sorted_ps emp card srt
      have "length ?pre = 10 \<and> ls = ?pre
                   @ [u ''| **Participants** | ''
                        @ str_of_int (int (card (set (sender_strings msgs)))) @ u '' |'',
                      [], u ''### Participants'', []]
                   @ map (\<lambda>p. u ''- '' @ p) (sorted_list_of_set (set (sender_strings msgs)))
                   @ [[], u ''---'', [], u ''## Messages'', []]"
        by (simp add: comp_def)
      with False emp show ?thesis by blast
    qed
  next
    case both
    show ?thesis
    proof (cases "ns = []")
      case True
      with both sh(5) ps emp show ?thesis by (auto simp: u_def)
    next
      case False
      let ?pre = "take 12 ls"
      from False both sh(5) ps sorted_ps emp card srt
      have "length ?pre = 12 \<and> ls = ?pre
                   @ [u ''| **Participants** | ''
                        @ str_of_int (int (card (set (sender_strings msgs)))) @ u '' |'',
                      [], u ''### Participants'', []]
                   @ map (\<lambda>p. u ''- '' @ p) (sorted_list_of_set (set (sender_strings msgs)))
                   @ [[], u ''---'', [], u ''## Messages'', []]"
        by (simp add: comp_def)
      with False emp show ?thesis by blast
    qed
  qed
qed


theorem header_participants_witness:
  "\<forall>E. \<exists>ls pre.
     generate_chat_header_lines E
       [(u ''messages'', JList [JDict [(u ''from'', JStr (u ''bob''))],
                                JDict [(u ''type'', JStr (u ''service'')), (u ''actor'', JStr (u ''Alice''))],
                                JDict [(u ''from'', JStr (u ''bob'')), (u ''actor'', JStr (u ''Eve''))],
                                JDict [(u ''from'', JStr [])]])] = Inr ls
     \<and> ls = pre @ [u ''| **Participants** | 2 |'', [], u ''### Participants'', [],
                   u ''- Alice'', u ''- bob'', [], u ''---'', [], u ''## Messages'', []]"
proof (intro allI)
  fix E
  let ?msgs = "[[(u ''from'', JStr (u ''bob''))],
                [(u ''type'', JStr (u ''service'')), (u ''actor'', JStr (u ''Alice''))],
                [(u ''from'', JStr (u ''bob'')), (u ''actor'', JStr (u ''Eve''))],
                [(u ''from'', JStr [])]]"
  let ?chat = "[(u ''messages'', JList [JDict [(u ''from'', JStr (u ''bob''))],
                                JDict [(u ''type'', JStr (u ''service'')), (u ''actor'', JStr (u ''Alice''))],
                                JDict [(u ''from'', JStr (u ''bob'')), (u ''actor'', JStr (u ''Eve''))],
                                JDict [(u ''from'', JStr [])]])]"
  have ml: "message_list (dict_get ?chat (u ''messages'') (JList [])) = Inr ?msgs"
    by (simp add: message_list_def dict_get_def u_def)
  have ok: "senders_ok ?msgs"
    by (simp add: senders_ok_def sender_or_actor_def dict_get_def is_str_def u_def)
  have ss: "sender_strings ?msgs = [u ''bob'', u ''Alice'', u ''bob'']"
    by (simp add: sender_strings_def sender_or_actor_def dict_get_def u_def)
  have st: "set (sender_strings ?msgs) = {u ''Alice'', u ''bob''}"
    unfolding ss by auto
  have ne: "u ''Alice'' \<noteq> u ''bob''" and lt: "u ''Alice'' < u ''bob''"
    by (simp_all add: u_def)
  have card: "card (set (sender_strings ?msgs)) = 2"
    unfolding st using ne by simp
  have srt: "sorted_list_of_set (set (sender_strings ?msgs)) = [u ''Alice'', u ''bob'']"
    unfolding st using ne lt by (simp add: insort_key.simps less_imp_le)
  have dr: "date_rows E ?msgs = Inr []"
    by (simp add: date_rows_def dict_get_def u_def)
  have cp: "collect_participants ?msgs [] = Inr [JStr (u ''bob''), JStr (u ''Alice'')]"
    by (simp add: dict_get_def u_def)
  have "strs_of [JStr (u ''bob''), JStr (u ''Alice'')] = Some [u ''bob'', u ''Alice'']"
    by simp
  then have ps: "\<exists>sorted_ps. py_sorted [JStr (u ''bob''), JStr (u ''Alice'')] = Inr sorted_ps"
    by (simp add: py_sorted_def)
  then obtain sorted_ps where sp: "py_sorted [JStr (u ''bob''), JStr (u ''Alice'')] = Inr sorted_ps"
    by blast
  obtain ls where ls: "generate_chat_header_lines E ?chat = Inr ls"
    using ml dr cp sp by (simp add: generate_chat_header_lines_def Let_def)
      (simp add: dict_get_def u_def)
  have ssne: "sender_strings ?msgs \<noteq> []"
    unfolding ss by simp
  from header_participants [OF ls ml ok, THEN conjunct2, rule_format, OF ssne]
  obtain pre where "ls = pre
                   @ [u ''| **Participants** | ''
                        @ str_of_int (int (card (set (sender_strings ?msgs)))) @ u '' |'',
                      [], u ''### Participants'', []]
                   @ map (\<lambda>p. u ''- '' @ p) (sorted_list_of_set (set (sender_strings ?msgs)))
                   @ [[], u ''---'', [], u ''## Messages'', []]"
    by blast
  then have "ls = pre @ [u ''| **Participants** | 2 |'', [], u ''### Participants'', [],
                   u ''- Alice'', u ''- bob'', [], u ''---'', [], u ''## Messages'', []]"
    unfolding card srt by (simp add: u_def str_of_int_def digits.simps)
  with ls show "\<exists>ls pre. generate_chat_header_lines E ?chat = Inr ls
     \<and> ls = pre @ [u ''| **Participants** | 2 |'', [], u ''### Participants'', [],
                   u ''- Alice'', u ''- bob'', [], u ''---'', [], u ''## Messages'', []]"
    by blast
qed

text \<open>
  C6 as stated fails on a message whose sender is the empty string: \<^verbatim>\<open>if sender:\<close>
  drops it, and the header has no count and no list.  It fails too on senders of several
  types: \<^verbatim>\<open>sorted\<close> raises \<^verbatim>\<open>TypeError\<close> on the number 1 and the string \<^verbatim>\<open>a\<close>.
\<close>

theorem empty_sender_counterexample:
  "\<forall>E. has_key [(u ''from'', JStr [])] (u ''from'')
     \<and> generate_chat_header_lines E
          [(u ''name'', JStr (u ''G'')), (u ''id'', JInt 7),
           (u ''messages'', JList [JDict [(u ''from'', JStr [])]])]
        = Inr [u ''# G'', [], u ''## Chat Details'', [], u ''| Property | Value |'',
               u ''|----------|-------|'', u ''| **Name** | G |'',
               u ''| **Type** | '' @ title E (u ''unknown'') @ u '' |'',
               u ''| **ID** | 7 |'', u ''| **Total Messages** | 1 |'',
               [], u ''---'', [], u ''## Messages'', []]
     \<and> generate_chat_header_lines E
          [(u ''messages'', JList [JDict [(u ''from'', JInt 1)], JDict [(u ''from'', JStr (u ''a''))]])]
        = Inl TypeError"
  by (simp add: generate_chat_header_lines_def Let_def message_list_def date_rows_def
      py_sorted_def dict_get_def has_key_def u_def replace_char_def str_of_int_def digits.simps)

section \<open>One block for each message\<close>

lemma index_messages_total:
  assumes "list_all (\<lambda>m. to_key (dict_get m (u ''id'') JNull) \<noteq> None) msgs"
  shows "\<exists>idx. index_messages msgs idx0 = Inr idx
           \<and> (\<forall>k original. idx k = Some original \<longrightarrow> original \<in> set msgs \<or> idx0 k = Some original)"
  using assms
proof (induction msgs arbitrary: idx0)
  case Nil
  then show ?case by simp
next
  case (Cons m ms)
  from Cons.prems obtain k where k: "to_key (dict_get m (u ''id'') JNull) = Some k"
    and rest: "list_all (\<lambda>m. to_key (dict_get m (u ''id'') JNull) \<noteq> None) ms"
    by auto
  show ?case
  proof (cases "has_key m (u ''id'')")
    case True
    from Cons.IH [OF rest, of "idx0(k \<mapsto> m)"] obtain idx where
      "index_messages ms (idx0(k \<mapsto> m)) = Inr idx"
      "\<forall>k' original. idx k' = Some original \<longrightarrow>
          original \<in> set ms \<or> (idx0(k \<mapsto> m)) k' = Some original"
      by blast
    with True k show ?thesis
      by (auto split: if_splits)
  next
    case False
    from Cons.IH [OF rest, of idx0] obtain idx where
      "index_messages ms idx0 = Inr idx"
      "\<forall>k' original. idx k' = Some original \<longrightarrow> original \<in> set ms \<or> idx0 k' = Some original"
      by blast
    with False show ?thesis by auto
  qed
qed

lemma format_messages_blocks:
  assumes "\<And>m. m \<in> set msgs \<Longrightarrow> \<exists>b. format_message E m idx = Inr b"
  shows "\<exists>blocks. format_messages E msgs idx = Inr blocks \<and> length blocks = length msgs
           \<and> (\<forall>i < length msgs. format_message E (msgs ! i) idx = Inr (blocks ! i))"
  using assms
proof (induction msgs)
  case Nil
  then show ?case by simp
next
  case (Cons m ms)
  from Cons.prems obtain b where b: "format_message E m idx = Inr b" by auto
  from Cons have "\<exists>blocks. format_messages E ms idx = Inr blocks \<and> length blocks = length ms
           \<and> (\<forall>i < length ms. format_message E (ms ! i) idx = Inr (blocks ! i))"
    by simp
  then obtain bs where bs: "format_messages E ms idx = Inr bs" "length bs = length ms"
    "\<forall>i < length ms. format_message E (ms ! i) idx = Inr (bs ! i)"
    by blast
  have "\<forall>i < length (m # ms). format_message E ((m # ms) ! i) idx = Inr ((b # bs) ! i)"
  proof (intro allI impI)
    fix i assume "i < length (m # ms)"
    then show "format_message E ((m # ms) ! i) idx = Inr ((b # bs) ! i)"
      using b bs(3) by (cases i) simp_all
  qed
  with b bs show ?case by simp
qed

lemma header_total:
  assumes "dict_get chat (u ''type'') (JStr (u ''unknown'')) = JStr t"
    and "message_list (dict_get chat (u ''messages'') (JList [])) = Inr msgs"
    and "dates_ok msgs" and "senders_ok msgs"
  shows "\<exists>h. generate_chat_header E chat = Inr h"
proof -
  from date_rows_strs [OF assms(3), of E] obtain rows where rows: "date_rows E msgs = Inr rows"
    by blast
  from collect_participants_strs [OF assms(4), of "[]"] obtain ns where
    ns: "collect_participants msgs [] = Inr (map JStr ns)"
    by auto
  have "py_sorted (map JStr ns) = Inr (map JStr (sort ns))"
    by (rule py_sorted_strs)
  with assms(1,2) rows ns show ?thesis
    by (simp add: generate_chat_header_def generate_chat_header_lines_def Let_def)
qed


lemma dicts_of_set: "dicts_of vs = Some msgs \<Longrightarrow> message_list (JList vs) = Inr msgs"
  by (simp add: message_list_def)

text \<open>
  C9.  On a valid archive the conversion returns the header and one block for each entry
  of the message sequence, joined by newlines: there are as many blocks as messages, and
  the block at each position is the rendering of the message at that position, service
  and content messages alike.
\<close>

theorem one_block_per_message:
  assumes "archive_ok chat"
  shows "\<exists>msgs header idx blocks.
           message_list (dict_get chat (u ''messages'') (JList [])) = Inr msgs
           \<and> generate_chat_header E chat = Inr header
           \<and> build_message_index msgs = Inr idx
           \<and> length blocks = length msgs
           \<and> (\<forall>i < length msgs. format_message E (msgs ! i) idx = Inr (blocks ! i))
           \<and> convert_to_markdown E chat = Inr (join [10] (header # blocks))"
proof -
  from assms obtain t where t: "dict_get chat (u ''type'') (JStr (u ''unknown'')) = JStr t"
    by (cases "dict_get chat (u ''type'') (JStr (u ''unknown''))")
       (simp_all add: archive_ok_def is_str_def)
  from assms obtain vs msgs where vs: "dict_get chat (u ''messages'') (JList []) = JList vs"
    "dicts_of vs = Some msgs"
    and ok: "list_all message_ok msgs"
      "list_all (\<lambda>m. text_ok (dict_get m (u ''text'') (JStr []))) msgs"
      "list_all (\<lambda>m. to_key (dict_get m (u ''id'') JNull) \<noteq> None) msgs"
      "dates_ok msgs" "senders_ok msgs"
    by (auto simp: archive_ok_def split: json.splits option.splits)
  from vs have ml: "message_list (dict_get chat (u ''messages'') (JList [])) = Inr msgs"
    by (simp add: dicts_of_set)
  from header_total [OF t ml ok(4,5), of E] obtain header
    where h: "generate_chat_header E chat = Inr header" by blast
  from index_messages_total [OF ok(3), of Map.empty] obtain idx
    where idx: "build_message_index msgs = Inr idx"
      and ran: "\<forall>k original. idx k = Some original \<longrightarrow> original \<in> set msgs"
    by (auto simp: build_message_index_def)
  have originals: "\<And>k original. idx k = Some original \<Longrightarrow>
      text_ok (dict_get original (u ''text'') (JStr []))"
    using ran ok(2) by (auto simp: list_all_iff)
  have "\<And>m. m \<in> set msgs \<Longrightarrow> \<exists>b. format_message E m idx = Inr b"
  proof -
    fix m assume "m \<in> set msgs"
    with ok(1) have "message_ok m" by (simp add: list_all_iff)
    then show "\<exists>b. format_message E m idx = Inr b"
      using originals by (rule format_message_total)
  qed
  from format_messages_blocks [of msgs E idx, OF this] obtain blocks where
    bl: "format_messages E msgs idx = Inr blocks" "length blocks = length msgs"
    "\<forall>i < length msgs. format_message E (msgs ! i) idx = Inr (blocks ! i)"
    by blast
  from h ml idx bl(1) have "convert_to_markdown E chat = Inr (join [10] (header # blocks))"
    by (simp add: convert_to_markdown_def)
  with ml h idx bl(2,3) show ?thesis by blast
qed

theorem one_block_per_message_witness:
  "\<forall>E. \<exists>header idx blocks.
     generate_chat_header E
       [(u ''name'', JStr (u ''G'')), (u ''type'', JStr (u ''private_group'')),
        (u ''messages'',
         JList [JDict [(u ''type'', JStr (u ''service'')), (u ''action'', JStr (u ''create_group'')),
                       (u ''actor'', JStr (u ''Bob''))],
                JDict [(u ''id'', JInt 1), (u ''from'', JStr (u ''Alice'')),
                       (u ''text'', JStr (u ''Hello''))]])] = Inr header
     \<and> length blocks = 2
     \<and> format_message E [(u ''type'', JStr (u ''service'')), (u ''action'', JStr (u ''create_group'')),
                          (u ''actor'', JStr (u ''Bob''))] idx = Inr (blocks ! 0)
     \<and> format_message E [(u ''id'', JInt 1), (u ''from'', JStr (u ''Alice'')),
                          (u ''text'', JStr (u ''Hello''))] idx = Inr (blocks ! 1)
     \<and> convert_to_markdown E
       [(u ''name'', JStr (u ''G'')), (u ''type'', JStr (u ''private_group'')),
        (u ''messages'',
         JList [JDict [(u ''type'', JStr (u ''service'')), (u ''action'', JStr (u ''create_group'')),
                       (u ''actor'', JStr (u ''Bob''))],
                JDict [(u ''id'', JInt 1), (u ''from'', JStr (u ''Alice'')),
                       (u ''text'', JStr (u ''Hello''))]])]
       = Inr (join [10] (header # blocks))"
proof (intro allI)
  fix E
  let ?s = "[(u ''type'', JStr (u ''service'')), (u ''action'', JStr (u ''create_group'')),
             (u ''actor'', JStr (u ''Bob''))]"
  let ?c = "[(u ''id'', JInt 1), (u ''from'', JStr (u ''Alice'')), (u ''text'', JStr (u ''Hello''))]"
  let ?chat = "[(u ''name'', JStr (u ''G'')), (u ''type'', JStr (u ''private_group'')),
        (u ''messages'', JList [JDict ?s, JDict ?c])]"
  have ml: "message_list (dict_get ?chat (u ''messages'') (JList [])) = Inr [?s, ?c]"
    by (simp add: message_list_def dict_get_def u_def)
  have ok: "archive_ok ?chat"
    by (simp add: archive_ok_def is_str_def dict_get_def u_def message_ok_def media_ok_def
        text_ok_def has_key_def dates_ok_def senders_ok_def sender_or_actor_def)
  from one_block_per_message [OF ok, of E] obtain msgs header idx blocks where r:
    "message_list (dict_get ?chat (u ''messages'') (JList [])) = Inr msgs"
    "generate_chat_header E ?chat = Inr header"
    "length blocks = length msgs"
    "\<forall>i < length msgs. format_message E (msgs ! i) idx = Inr (blocks ! i)"
    "convert_to_markdown E ?chat = Inr (join [10] (header # blocks))"
    by blast
  from r(1) ml have m: "msgs = [?s, ?c]" by simp
  from r(3) m have l: "length blocks = 2" by simp
  from r(4) m have b0: "format_message E ?s idx = Inr (blocks ! 0)"
    and b1: "format_message E ?c idx = Inr (blocks ! 1)"
    by (auto simp: nth_Cons' dest: spec [of _ 0] spec [of _ 1])
  from r(2) l b0 b1 r(5) show "\<exists>header idx blocks.
     generate_chat_header E ?chat = Inr header
     \<and> length blocks = 2
     \<and> format_message E ?s idx = Inr (blocks ! 0)
     \<and> format_message E ?c idx = Inr (blocks ! 1)
     \<and> convert_to_markdown E ?chat = Inr (join [10] (header # blocks))"
    by blast
qed

section \<open>Conversion without exceptions\<close>

lemma convert_total:
  assumes "archive_ok chat"
  shows "\<exists>header out. generate_chat_header E chat = Inr header
           \<and> convert_to_markdown E chat = Inr out"
proof -
  from assms obtain t where t: "dict_get chat (u ''type'') (JStr (u ''unknown'')) = JStr t"
    by (cases "dict_get chat (u ''type'') (JStr (u ''unknown''))")
       (simp_all add: archive_ok_def is_str_def)
  from assms obtain vs msgs where vs: "dict_get chat (u ''messages'') (JList []) = JList vs"
    "dicts_of vs = Some msgs"
    and ok: "list_all message_ok msgs"
      "list_all (\<lambda>m. text_ok (dict_get m (u ''text'') (JStr []))) msgs"
      "list_all (\<lambda>m. to_key (dict_get m (u ''id'') JNull) \<noteq> None) msgs"
      "dates_ok msgs" "senders_ok msgs"
    by (auto simp: archive_ok_def split: json.splits option.splits)
  from vs have ml: "message_list (dict_get chat (u ''messages'') (JList [])) = Inr msgs"
    by (simp add: dicts_of_set)
  from header_total [OF t ml ok(4,5), of E] obtain header
    where h: "generate_chat_header E chat = Inr header" by blast
  from index_messages_total [OF ok(3), of Map.empty] obtain idx
    where idx: "build_message_index msgs = Inr idx"
      and ran: "\<forall>k original. idx k = Some original \<longrightarrow> original \<in> set msgs"
    by (auto simp: build_message_index_def)
  have originals: "\<And>k original. idx k = Some original \<Longrightarrow>
      text_ok (dict_get original (u ''text'') (JStr []))"
    using ran ok(2) by (auto simp: list_all_iff)
  have "\<And>m. m \<in> set msgs \<Longrightarrow> \<exists>b. format_message E m idx = Inr b"
  proof -
    fix m assume "m \<in> set msgs"
    with ok(1) have "message_ok m" by (simp add: list_all_iff)
    then show "\<exists>b. format_message E m idx = Inr b"
      using originals by (rule format_message_total)
  qed
  from format_messages_blocks [of msgs E idx, OF this] obtain blocks where
    bl: "format_messages E msgs idx = Inr blocks"
    by blast
  from h ml idx bl have "convert_to_markdown E chat = Inr (join [10] (header # blocks))"
    by (simp add: convert_to_markdown_def)
  with h show ?thesis by blast
qed

text \<open>
  C1, amended.  One message: a record that satisfies \<open>message_ok\<close> is rendered without an
  exception, whatever fields it lacks and whatever the types of the fields the renderer
  only prints (sender, identifier, date, forward origin), provided the messages of the
  index have a text the extractor accepts.  The conversion: on an archive that satisfies
  \<open>archive_ok\<close> the header is generated and the conversion returns, whatever fields the
  records lack.  There the header and the index ask more of a record than the renderer
  does: an identifier that is hashable, a date that is falsy or a string, a sender-or-actor
  value that is falsy or a string.
\<close>

theorem render_returns_on_typed_fields:
  "(message_ok m
      \<and> (\<forall>k original. idx k = Some original \<longrightarrow>
            text_ok (dict_get original (u ''text'') (JStr [])))
      \<longrightarrow> (\<exists>out. format_message E m idx = Inr out))
   \<and> (archive_ok chat
      \<longrightarrow> (\<exists>header out. generate_chat_header E chat = Inr header
                         \<and> convert_to_markdown E chat = Inr out))"
proof (intro conjI impI)
  assume a: "message_ok m
      \<and> (\<forall>k original. idx k = Some original \<longrightarrow>
            text_ok (dict_get original (u ''text'') (JStr [])))"
  then have "message_ok m" by simp
  moreover from a have "\<And>k original. idx k = Some original \<Longrightarrow>
      text_ok (dict_get original (u ''text'') (JStr []))"
    by simp
  ultimately show "\<exists>out. format_message E m idx = Inr out"
    by (rule format_message_total)
next
  assume "archive_ok chat"
  then show "\<exists>header out. generate_chat_header E chat = Inr header
                         \<and> convert_to_markdown E chat = Inr out"
    by (rule convert_total)
qed

theorem render_returns_on_typed_fields_witness:
  "\<forall>E. (\<exists>out. format_message E [] Map.empty = Inr out)
     \<and> (\<exists>out. format_message E
                [(u ''from'', JInt 7), (u ''date'', JNull), (u ''reply_to_message_id'', JInt 4),
                 (u ''forwarded_from'', JList [JInt 1]), (u ''poll'', JDict [])]
                [KNum 4 \<mapsto> [(u ''text'', JList [JStr (u ''a''), JNull])]] = Inr out)
     \<and> (\<exists>header out. generate_chat_header E [] = Inr header \<and> convert_to_markdown E [] = Inr out)
     \<and> (\<exists>header out.
           generate_chat_header E
             [(u ''messages'',
               JList [JDict [],
                      JDict [(u ''type'', JStr (u ''service''))],
                      JDict [(u ''id'', JBool True), (u ''from'', JStr []), (u ''actor'', JNull),
                             (u ''date'', JNull), (u ''reply_to_message_id'', JBool True),
                             (u ''text'', JList [JNull, JStr (u ''a'')])]])] = Inr header
           \<and> convert_to_markdown E
             [(u ''messages'',
               JList [JDict [],
                      JDict [(u ''type'', JStr (u ''service''))],
                      JDict [(u ''id'', JBool True), (u ''from'', JStr []), (u ''actor'', JNull),
                             (u ''date'', JNull), (u ''reply_to_message_id'', JBool True),
                             (u ''text'', JList [JNull, JStr (u ''a'')])]])] = Inr out)"
proof (intro allI conjI)
  fix E
  have "message_ok []
      \<and> (\<forall>k original. Map.empty k = Some original \<longrightarrow>
            text_ok (dict_get original (u ''text'') (JStr [])))"
    by (simp add: message_ok_def media_ok_def text_ok_def dict_get_def has_key_def)
  from render_returns_on_typed_fields [THEN conjunct1, rule_format, OF this]
  show "\<exists>out. format_message E [] Map.empty = Inr out" .
  let ?m = "[(u ''from'', JInt 7), (u ''date'', JNull), (u ''reply_to_message_id'', JInt 4),
                 (u ''forwarded_from'', JList [JInt 1]), (u ''poll'', JDict [])]"
  let ?idx = "[KNum 4 \<mapsto> [(u ''text'', JList [JStr (u ''a''), JNull])]]"
  have "message_ok ?m
      \<and> (\<forall>k original. ?idx k = Some original \<longrightarrow>
            text_ok (dict_get original (u ''text'') (JStr [])))"
    by (simp add: message_ok_def media_ok_def text_ok_def dict_get_def has_key_def u_def
        is_dict_def media_kinds_def span_ok_def)
  from render_returns_on_typed_fields [THEN conjunct1, rule_format, OF this]
  show "\<exists>out. format_message E ?m ?idx = Inr out" .
  have "archive_ok []"
    by (simp add: archive_ok_def is_str_def dict_get_def dates_ok_def senders_ok_def)
  from render_returns_on_typed_fields [THEN conjunct2, rule_format, OF this]
  show "\<exists>header out. generate_chat_header E [] = Inr header \<and> convert_to_markdown E [] = Inr out" .
  let ?chat = "[(u ''messages'',
               JList [JDict [],
                      JDict [(u ''type'', JStr (u ''service''))],
                      JDict [(u ''id'', JBool True), (u ''from'', JStr []), (u ''actor'', JNull),
                             (u ''date'', JNull), (u ''reply_to_message_id'', JBool True),
                             (u ''text'', JList [JNull, JStr (u ''a'')])]])]"
  have "archive_ok ?chat"
    by (simp add: archive_ok_def is_str_def dict_get_def u_def message_ok_def media_ok_def
        text_ok_def has_key_def dates_ok_def senders_ok_def sender_or_actor_def span_ok_def
        media_kinds_def)
  from render_returns_on_typed_fields [THEN conjunct2, rule_format, OF this]
  show "\<exists>header out. generate_chat_header E ?chat = Inr header
          \<and> convert_to_markdown E ?chat = Inr out" .
qed

text \<open>
  C1 as stated fails.  In the renderer: a reply reference that is a list is unhashable and
  the membership test raises \<^verbatim>\<open>TypeError\<close>; a mention whose text is a number has no
  \<^verbatim>\<open>startswith\<close>; a location that is a string has no \<^verbatim>\<open>get\<close>.  In the
  conversion, on records the renderer accepts: a sender that is a list cannot be added to
  the set of participants, an identifier that is a list cannot be a key of the index, the
  senders 1 and \<^verbatim>\<open>a\<close> cannot be sorted and the dates 1 and \<^verbatim>\<open>a\<close> have no minimum;
  each raises \<^verbatim>\<open>TypeError\<close> and no block is written.
\<close>

theorem malformed_field_counterexample:
  "\<forall>E idx.
     format_message E [(u ''reply_to_message_id'', JList [JInt 1])] idx = Inl TypeError
     \<and> format_message E [(u ''text'', JList [JDict [(u ''type'', JStr (u ''mention'')),
                                                     (u ''text'', JInt 5)]])] idx
         = Inl AttributeError
     \<and> format_message E [(u ''location_information'', JStr (u ''here''))] idx = Inl AttributeError
     \<and> message_ok [(u ''from'', JList [JInt 1])]
     \<and> convert_to_markdown E [(u ''messages'', JList [JDict [(u ''from'', JList [JInt 1])]])]
         = Inl TypeError
     \<and> message_ok [(u ''id'', JList [JInt 1])]
     \<and> build_message_index [[(u ''id'', JList [JInt 1])]] = Inl TypeError
     \<and> convert_to_markdown E [(u ''messages'', JList [JDict [(u ''id'', JList [JInt 1])]])]
         = Inl TypeError
     \<and> message_ok [(u ''from'', JInt 1)] \<and> message_ok [(u ''from'', JStr (u ''a''))]
     \<and> convert_to_markdown E
           [(u ''messages'', JList [JDict [(u ''from'', JInt 1)],
                                    JDict [(u ''from'', JStr (u ''a''))]])]
         = Inl TypeError
     \<and> message_ok [(u ''date'', JInt 1)] \<and> message_ok [(u ''date'', JStr (u ''a''))]
     \<and> convert_to_markdown E
           [(u ''messages'', JList [JDict [(u ''date'', JInt 1)],
                                    JDict [(u ''date'', JStr (u ''a''))]])]
         = Inl TypeError"
proof (intro allI conjI)
  fix E :: runtime and idx :: index
  show "format_message E [(u ''reply_to_message_id'', JList [JInt 1])] idx = Inl TypeError"
    by (simp add: format_message_def format_message_lines_def reply_lines_def Let_def
        dict_get_def u_def)
  show "format_message E [(u ''text'', JList [JDict [(u ''type'', JStr (u ''mention'')),
                                                     (u ''text'', JInt 5)]])] idx
         = Inl AttributeError"
    by (simp add: format_message_def format_message_lines_def reply_lines_def Let_def
        dict_get_def u_def extract_text_content_def format_span_def)
  show "format_message E [(u ''location_information'', JStr (u ''here''))] idx = Inl AttributeError"
    by (simp add: format_message_def format_message_lines_def reply_lines_def Let_def
        dict_get_def u_def extract_text_content_def get_message_type_info_def has_key_def
        as_dict_def)
  show "message_ok [(u ''from'', JList [JInt 1])]"
    by (simp add: message_ok_def media_ok_def text_ok_def dict_get_def has_key_def u_def)
  show "convert_to_markdown E [(u ''messages'', JList [JDict [(u ''from'', JList [JInt 1])]])]
         = Inl TypeError"
    by (simp add: convert_to_markdown_def generate_chat_header_def
        generate_chat_header_lines_def message_list_def date_rows_def Let_def dict_get_def u_def)
  show "message_ok [(u ''id'', JList [JInt 1])]"
    by (simp add: message_ok_def media_ok_def text_ok_def dict_get_def has_key_def u_def)
  show "build_message_index [[(u ''id'', JList [JInt 1])]] = Inl TypeError"
    by (simp add: build_message_index_def has_key_def dict_get_def)
  show "convert_to_markdown E [(u ''messages'', JList [JDict [(u ''id'', JList [JInt 1])]])]
         = Inl TypeError"
    by (simp add: convert_to_markdown_def generate_chat_header_def
        generate_chat_header_lines_def message_list_def date_rows_def Let_def dict_get_def u_def
        py_sorted_def build_message_index_def has_key_def)
  show "message_ok [(u ''from'', JInt 1)]"
    by (simp add: message_ok_def media_ok_def text_ok_def dict_get_def has_key_def u_def)
  show "message_ok [(u ''from'', JStr (u ''a''))]"
    by (simp add: message_ok_def media_ok_def text_ok_def dict_get_def has_key_def u_def)
  show "convert_to_markdown E
           [(u ''messages'', JList [JDict [(u ''from'', JInt 1)],
                                    JDict [(u ''from'', JStr (u ''a''))]])]
         = Inl TypeError"
    by (simp add: convert_to_markdown_def generate_chat_header_def
        generate_chat_header_lines_def message_list_def date_rows_def Let_def dict_get_def u_def
        py_sorted_def)
  show "message_ok [(u ''date'', JInt 1)]"
    by (simp add: message_ok_def media_ok_def text_ok_def dict_get_def has_key_def u_def)
  show "message_ok [(u ''date'', JStr (u ''a''))]"
    by (simp add: message_ok_def media_ok_def text_ok_def dict_get_def has_key_def u_def)
  show "convert_to_markdown E
           [(u ''messages'', JList [JDict [(u ''date'', JInt 1)],
                                    JDict [(u ''date'', JStr (u ''a''))]])]
         = Inl TypeError"
    by (simp add: convert_to_markdown_def generate_chat_header_def
        generate_chat_header_lines_def message_list_def date_rows_def Let_def dict_get_def u_def)
qed

end
